theory Spec2Isabelle
  imports Complex_Main "HOL-Library.Char_ord" "HOL-Library.List_Lexorder"
    "HOL-Library.Product_Lexorder"
begin

section \<open>Data model\<close>

text \<open>
  The war tracker of \<^verbatim>\<open>fetch_wars.py\<close> polls a clan-war API, flattens each war
  snapshot into per-attack rows, keeps one sheet of rows per war in a workbook and derives
  a roster, a missed-hits view and leaderboards from the workbook.

  The JSON snapshot is read with \<^verbatim>\<open>dict.get(key, default)\<close> throughout, so every
  field of the snapshot is optional: \<open>None\<close> is an absent key.
\<close>

record attack =
  a_stars :: "int option"
  a_destructionPercentage :: "rat option"

record member =
  m_tag :: "string option"
  m_name :: "string option"
  m_townhallLevel :: "int option"
  m_mapPosition :: "int option"
  m_attacks :: "attack list option"

text \<open>
  \<open>w_warLeague\<close>: \<open>None\<close> is an absent (or empty) \<^verbatim>\<open>warLeague\<close> object,
  \<open>Some None\<close> an object without \<^verbatim>\<open>name\<close>. \<open>w_members\<close> is
  \<^verbatim>\<open>war.get('clan', {}).get('members', [])\<close> before the default is applied.
\<close>

record war =
  w_state :: "string option"
  w_preparationStartTime :: "string option"
  w_endTime :: "string option"
  w_teamSize :: "int option"
  w_warLeague :: "string option option"
  w_members :: "member list option"

text \<open>
  A spreadsheet cell as a hand edit can leave it: the \<^verbatim>\<open>Is Loot Hit\<close> column is
  curated by hand, so it is the one column kept at this type.
\<close>

datatype cell = CStr string | CInt int | CBool bool | CBlank

text \<open>One row of a war sheet: the fifteen columns \<^verbatim>\<open>process_war\<close> writes.\<close>

record attack_record =
  war_id :: string
  war_state :: string
  war_complete :: string
  war_end_time :: string
  team_size :: int
  player_name :: string
  player_tag :: string
  town_hall :: int
  map_position :: int
  attack_number :: int
  stars :: int
  destruction :: rat
  is_triple :: string
  is_missed :: string
  is_loot_hit :: cell

text \<open>The dictionary \<^verbatim>\<open>process_war\<close> returns.\<close>

record war_data =
  wd_war_id :: string
  war_details :: "attack_record list"
  is_ended :: bool

text \<open>Rows of the two derived sheets.\<close>

record roster_entry =
  r_player_tag :: string
  r_player_name :: string
  last_seen_th :: int
  r_total_wars :: nat
  wars_participated :: nat

record missed_entry =
  mh_war_id :: string
  mh_war_end_time :: string
  mh_player_name :: string
  mh_player_tag :: string
  mh_town_hall :: int
  mh_attack_number :: int
  mh_stars :: int
  mh_destruction :: rat

text \<open>
  A sheet of the workbook. A war sheet carries its rows and whether it has the
  \<^verbatim>\<open>Is Missed\<close> column (sheets of an older format lack it, and the readers fill it
  in); when the column is absent the \<open>is_missed\<close> field of its rows is not read.
  The workbook is the ordered list of named sheets (\<^verbatim>\<open>book.sheetnames\<close>), and the
  store is \<open>None\<close> while the file \<^verbatim>\<open>clash_wars.xlsx\<close> does not exist.
\<close>

datatype sheet =
  WarSheet bool "attack_record list"
| RosterSheet "roster_entry list"
| MissedHitsSheet "missed_entry list"

type_synonym workbook = "(string \<times> sheet) list"

type_synonym store = "workbook option"

text \<open>
  Exceptions as values. Reading the workbook can raise for reasons outside the program
  (a damaged or locked file): \<open>load_raises\<close> says that opening the file raises
  during this run, \<open>read_raises\<close> names the sheets on which \<^verbatim>\<open>pd.read_excel\<close>
  raises although the file opens. Writes are taken to succeed.
\<close>

datatype error = KeyError | IndexError | ValueError | IOError | ZeroDivisionError | TypeError

record io =
  load_raises :: bool
  read_raises :: "string set"

section \<open>Operations\<close>

definition EXCEL_SHEET_LIMIT :: nat where
  "EXCEL_SHEET_LIMIT = 31"

definition ROSTER_SHEET_NAME :: string where
  "ROSTER_SHEET_NAME = ''ROSTER''"

definition MISSED_HITS_SHEET_NAME :: string where
  "MISSED_HITS_SHEET_NAME = ''MISSED_HITS''"

definition yes_no :: "bool \<Rightarrow> string" where
  "yes_no b = (if b then ''Yes'' else ''No'')"

subsection \<open>War snapshot classification\<close>

definition replace_char :: "char \<Rightarrow> char \<Rightarrow> string \<Rightarrow> string" where
  "replace_char a b s = map (\<lambda>c. if c = a then b else c) s"

text \<open>
  \<^verbatim>\<open>get_war_id\<close>; \<open>now_ts\<close> is \<^verbatim>\<open>str(datetime.now().timestamp())\<close>, the last
  fallback.
\<close>

definition get_war_id :: "string \<Rightarrow> war \<Rightarrow> string" where
  "get_war_id now_ts w =
     (let prep_time = (case w_preparationStartTime w of None \<Rightarrow> [] | Some p \<Rightarrow> p);
          prep_time' = (if prep_time = []
                        then (case w_endTime w of None \<Rightarrow> now_ts | Some e \<Rightarrow> e)
                        else prep_time)
      in replace_char (CHR ''.'') (CHR ''-'') (replace_char (CHR '':'') (CHR ''-'') prep_time'))"

definition is_war_ended :: "war \<Rightarrow> bool" where
  "is_war_ended w = (w_state w = Some ''warEnded'')"

definition is_cwl_war :: "war \<Rightarrow> bool" where
  "is_cwl_war w =
     (case w_warLeague w of
        None \<Rightarrow> False
      | Some league_name \<Rightarrow> league_name \<noteq> Some ''Unranked'')"

subsection \<open>Reading the store\<close>

text \<open>
  A sheet holds the texts as they were handed to the writer. \<^verbatim>\<open>pd.read_excel\<close> is
  called with its default parsing of missing values: an empty cell, and a text cell that
  holds one of the words of \<open>NA_VALUES\<close>, is read as the missing value NaN. The same
  happens to two kinds of text that openpyxl does not store as text: a text of more than
  one character that begins with \<^verbatim>\<open>=\<close> is stored as a formula, which has no value
  when it is read, and a text that is one of the \<open>ERROR_CODES\<close> is stored as an error
  cell, which the reader turns into NaN.

  In a frame that was read, the NaN of a text column is kept as the empty text, which the
  reader never returns as text, and \<open>isna\<close> tests for it; the NaN of the hand-edited
  \<^verbatim>\<open>Is Loot Hit\<close> column is \<open>CBlank\<close>. The columns of numbers hold numbers and
  are read as they are. The reader turns a column of texts into numbers only when every
  text of the column is a numeral; the text columns of a stored sheet are taken not to be
  of that kind (player tags begin with \<^verbatim>\<open>#\<close>, the war identifiers, end times and
  states hold letters, and the names of a war are not all numerals).
\<close>

definition NA_VALUES :: "string list" where
  "NA_VALUES = [[], ''#N/A'', ''#N/A N/A'', ''#NA'', ''-1.#IND'', ''-1.#QNAN'', ''-NaN'',
                ''-nan'', ''1.#IND'', ''1.#QNAN'', ''<NA>'', ''N/A'', ''NA'', ''NULL'', ''NaN'',
                ''None'', ''n/a'', ''nan'', ''null'']"

definition ERROR_CODES :: "string list" where
  "ERROR_CODES = [''#NULL!'', ''#DIV/0!'', ''#VALUE!'', ''#REF!'', ''#NAME?'', ''#NUM!'',
                  ''#N/A'']"

definition reads_as_nan :: "string \<Rightarrow> bool" where
  "reads_as_nan s =
     (s \<in> set NA_VALUES \<or> (1 < length s \<and> hd s = CHR ''='') \<or> s \<in> set ERROR_CODES)"

definition isna :: "string \<Rightarrow> bool" where
  "isna s = (s = [])"

definition read_text :: "string \<Rightarrow> string" where
  "read_text s = (if reads_as_nan s then [] else s)"

fun read_cell :: "cell \<Rightarrow> cell" where
  "read_cell (CStr s) = (if reads_as_nan s then CBlank else CStr s)"
| "read_cell (CInt i) = CInt i"
| "read_cell (CBool b) = CBool b"
| "read_cell CBlank = CBlank"

definition read_row :: "attack_record \<Rightarrow> attack_record" where
  "read_row r =
     \<lparr> war_id = read_text (war_id r),
       war_state = read_text (war_state r),
       war_complete = read_text (war_complete r),
       war_end_time = read_text (war_end_time r),
       team_size = team_size r,
       player_name = read_text (player_name r),
       player_tag = read_text (player_tag r),
       town_hall = town_hall r,
       map_position = map_position r,
       attack_number = attack_number r,
       stars = stars r,
       destruction = destruction r,
       is_triple = read_text (is_triple r),
       is_missed = read_text (is_missed r),
       is_loot_hit = read_cell (is_loot_hit r) \<rparr>"

fun read_sheet :: "sheet \<Rightarrow> sheet" where
  "read_sheet (WarSheet has_column rows) = WarSheet has_column (map read_row rows)"
| "read_sheet (RosterSheet es) =
     RosterSheet (map (\<lambda>e. e\<lparr>r_player_tag := read_text (r_player_tag e),
                             r_player_name := read_text (r_player_name e)\<rparr>) es)"
| "read_sheet (MissedHitsSheet es) =
     MissedHitsSheet (map (\<lambda>e. e\<lparr>mh_war_id := read_text (mh_war_id e),
                                 mh_war_end_time := read_text (mh_war_end_time e),
                                 mh_player_name := read_text (mh_player_name e),
                                 mh_player_tag := read_text (mh_player_tag e)\<rparr>) es)"

text \<open>
  \<^verbatim>\<open>pd.read_excel(EXCEL_FILE, sheet_name=...)\<close>: raises when the sheet is not in the
  workbook, or when the read fails (pandas opens the same file, so it fails whenever
  \<^verbatim>\<open>load_workbook\<close> does); otherwise it gives the sheet as the reader parses it.
\<close>

definition read_excel :: "io \<Rightarrow> workbook \<Rightarrow> string \<Rightarrow> error + sheet" where
  "read_excel env book sheet_name =
     (if load_raises env \<or> sheet_name \<in> read_raises env then Inl IOError
      else case map_of book sheet_name of
             None \<Rightarrow> Inl ValueError
           | Some sh \<Rightarrow> Inr (read_sheet sh))"

text \<open>
  \<^verbatim>\<open>not df.empty and 'War Complete' in df.columns and df['War Complete'].iloc[0] == 'Yes'\<close>:
  only a war sheet has the column.
\<close>

fun first_row_complete :: "sheet \<Rightarrow> bool" where
  "first_row_complete (WarSheet _ []) = False"
| "first_row_complete (WarSheet _ (r # _)) = (war_complete r = ''Yes'')"
| "first_row_complete (RosterSheet _) = False"
| "first_row_complete (MissedHitsSheet _) = False"

definition war_already_saved :: "io \<Rightarrow> store \<Rightarrow> string \<Rightarrow> bool \<times> bool" where
  "war_already_saved env st wid =
     (case st of
        None \<Rightarrow> (False, False)
      | Some book \<Rightarrow>
          if load_raises env then (False, False)
          else let sheet_name = take EXCEL_SHEET_LIMIT wid;
                   exists = (sheet_name \<in> set (map fst book))
               in if exists
                  then (case read_excel env book sheet_name of
                          Inl _ \<Rightarrow> (False, False)
                        | Inr sh \<Rightarrow> (exists, first_row_complete sh))
                  else (exists, False))"

text \<open>
  The values \<^verbatim>\<open>['TRUE', True, 'Yes', 'yes', 1]\<close> that count as a loot-hit mark
  (Python's \<^verbatim>\<open>True == 1\<close>, so both the boolean and the number are in the list).
\<close>

fun is_loot_mark :: "cell \<Rightarrow> bool" where
  "is_loot_mark (CStr s) = (s = ''TRUE'' \<or> s = ''Yes'' \<or> s = ''yes'')"
| "is_loot_mark (CInt i) = (i = 1)"
| "is_loot_mark (CBool b) = b"
| "is_loot_mark CBlank = False"

text \<open>
  The body of the loop over \<^verbatim>\<open>df.iterrows()\<close> in \<^verbatim>\<open>get_existing_loot_hits\<close>.
  The dictionary is kept at the keys that are text, the only ones \<^verbatim>\<open>process_war\<close>
  looks up: a marked row whose tag was read as NaN goes under the key NaN, which is equal
  to no text, and leaves the text keys as they are.
\<close>

definition loot_hits_row :: "(string \<rightharpoonup> int list) \<Rightarrow> attack_record \<Rightarrow> (string \<rightharpoonup> int list)" where
  "loot_hits_row loot_hits row =
     (if is_loot_mark (is_loot_hit row) \<and> \<not> isna (player_tag row)
      then loot_hits(player_tag row \<mapsto>
             (case loot_hits (player_tag row) of None \<Rightarrow> [] | Some l \<Rightarrow> l) @ [attack_number row])
      else loot_hits)"

text \<open>
  \<^verbatim>\<open>get_existing_loot_hits\<close>. The derived sheets have a \<^verbatim>\<open>Player Tag\<close> column and
  no \<^verbatim>\<open>Is Loot Hit\<close> column, so reading one of them yields no mark. Every exception
  ends in the empty dictionary.
\<close>

definition get_existing_loot_hits :: "io \<Rightarrow> store \<Rightarrow> string \<Rightarrow> (string \<rightharpoonup> int list)" where
  "get_existing_loot_hits env st wid =
     (case st of
        None \<Rightarrow> Map.empty
      | Some book \<Rightarrow>
          (case read_excel env book (take EXCEL_SHEET_LIMIT wid) of
             Inl _ \<Rightarrow> Map.empty
           | Inr (WarSheet _ rows) \<Rightarrow> fold (\<lambda>row loot_hits. loot_hits_row loot_hits row) rows Map.empty
           | Inr _ \<Rightarrow> Map.empty))"

subsection \<open>The normalizer\<close>

definition in_loot :: "(string \<rightharpoonup> int list) \<Rightarrow> string \<Rightarrow> int \<Rightarrow> bool" where
  "in_loot existing_loot ptag attack_idx =
     (case existing_loot ptag of None \<Rightarrow> False | Some l \<Rightarrow> attack_idx \<in> set l)"

definition opt_default :: "'a \<Rightarrow> 'a option \<Rightarrow> 'a" where
  "opt_default d x = (case x of None \<Rightarrow> d | Some v \<Rightarrow> v)"

text \<open>The row appended for one attack, numbered \<open>attack_idx\<close> from 1.\<close>

definition attack_row ::
  "string \<Rightarrow> war \<Rightarrow> (string \<rightharpoonup> int list) \<Rightarrow> member \<Rightarrow> nat \<times> attack \<Rightarrow> attack_record" where
  "attack_row wid w existing_loot mem ia =
     (let attack_idx = int (fst ia);
          st = opt_default 0 (a_stars (snd ia));
          destr = opt_default 0 (a_destructionPercentage (snd ia));
          missed = (st = 0 \<and> destr = 0);
          ptag = opt_default [] (m_tag mem);
          is_loot = in_loot existing_loot ptag attack_idx
      in \<lparr> war_id = wid,
           war_state = opt_default ''unknown'' (w_state w),
           war_complete = yes_no (is_war_ended w),
           war_end_time = opt_default ''N/A'' (w_endTime w),
           team_size = opt_default 0 (w_teamSize w),
           player_name = opt_default [] (m_name mem),
           player_tag = ptag,
           town_hall = opt_default 0 (m_townhallLevel mem),
           map_position = opt_default 0 (m_mapPosition mem),
           attack_number = attack_idx,
           stars = st,
           destruction = destr,
           is_triple = yes_no (st = 3),
           is_missed = yes_no missed,
           is_loot_hit = CStr (yes_no is_loot) \<rparr>)"

text \<open>The sentinel row appended for a member without attacks.\<close>

definition sentinel_row :: "string \<Rightarrow> war \<Rightarrow> member \<Rightarrow> attack_record" where
  "sentinel_row wid w mem =
     \<lparr> war_id = wid,
       war_state = opt_default ''unknown'' (w_state w),
       war_complete = yes_no (is_war_ended w),
       war_end_time = opt_default ''N/A'' (w_endTime w),
       team_size = opt_default 0 (w_teamSize w),
       player_name = opt_default [] (m_name mem),
       player_tag = opt_default [] (m_tag mem),
       town_hall = opt_default 0 (m_townhallLevel mem),
       map_position = opt_default 0 (m_mapPosition mem),
       attack_number = 0,
       stars = 0,
       destruction = 0,
       is_triple = ''No'',
       is_missed = ''Yes'',
       is_loot_hit = CStr ''No'' \<rparr>"

text \<open>One pass of the loop over the members.\<close>

definition member_rows ::
  "string \<Rightarrow> war \<Rightarrow> (string \<rightharpoonup> int list) \<Rightarrow> member \<Rightarrow> attack_record list" where
  "member_rows wid w existing_loot mem =
     (let atts = opt_default [] (m_attacks mem)
      in map (attack_row wid w existing_loot mem) (List.enumerate 1 atts)
         @ (if atts = [] then [sentinel_row wid w mem] else []))"

text \<open>
  \<^verbatim>\<open>process_war(war, preserve_loot_markings)\<close>; the argument is \<open>None\<close> when the fetch
  failed.
\<close>

definition process_war :: "io \<Rightarrow> store \<Rightarrow> string \<Rightarrow> bool \<Rightarrow> war option \<Rightarrow> war_data option" where
  "process_war env st now_ts preserve_loot_markings wo =
     (case wo of
        None \<Rightarrow> None
      | Some w \<Rightarrow>
          let wid = get_war_id now_ts w;
              existing_loot = (if preserve_loot_markings
                               then get_existing_loot_hits env st wid else Map.empty)
          in Some \<lparr> wd_war_id = wid,
                    war_details = concat (map (member_rows wid w existing_loot)
                                            (opt_default [] (w_members w))),
                    is_ended = is_war_ended w \<rparr>)"

subsection \<open>Writing a war sheet\<close>

definition delete_sheet :: "string \<Rightarrow> workbook \<Rightarrow> workbook" where
  "delete_sheet sheet_name book = filter (\<lambda>p. fst p \<noteq> sheet_name) book"

text \<open>
  \<^verbatim>\<open>save_war_to_excel\<close>: nothing is written for an empty record list; otherwise the
  sheet of that name is deleted and a new one appended. The workbook is loaded only when
  the file exists. The second component is the function's return value.
\<close>

definition save_war_to_excel :: "io \<Rightarrow> store \<Rightarrow> war_data option \<Rightarrow> error + (store \<times> bool)" where
  "save_war_to_excel env st wdo =
     (case wdo of
        None \<Rightarrow> Inr (st, False)
      | Some wd \<Rightarrow>
          if war_details wd = [] then Inr (st, False)
          else if st \<noteq> None \<and> load_raises env then Inl IOError
          else let book = (case st of None \<Rightarrow> [] | Some b \<Rightarrow> b);
                   sheet_name = take EXCEL_SHEET_LIMIT (wd_war_id wd);
                   book' = (if sheet_name \<in> set (map fst book)
                            then delete_sheet sheet_name book else book)
               in Inr (Some (book' @ [(sheet_name, WarSheet True (war_details wd))]), True))"

subsection \<open>Derived views\<close>

definition is_derived_name :: "string \<Rightarrow> bool" where
  "is_derived_name sheet_name =
     (sheet_name = ROSTER_SHEET_NAME \<or> sheet_name = MISSED_HITS_SHEET_NAME)"

text \<open>
  The fill-in of an absent \<^verbatim>\<open>Is Missed\<close> column, as \<^verbatim>\<open>update_missed_hits_sheet\<close>
  and \<^verbatim>\<open>calculate_leaderboard\<close> both do it.
\<close>

definition with_is_missed :: "bool \<Rightarrow> attack_record list \<Rightarrow> attack_record list" where
  "with_is_missed has_column rows =
     (if has_column then rows
      else map (\<lambda>row. row\<lparr>is_missed :=
                  yes_no (stars row = 0 \<and> destruction row = 0 \<and> attack_number row > 0)\<rparr>) rows)"

definition to_missed_entry :: "attack_record \<Rightarrow> missed_entry" where
  "to_missed_entry row =
     \<lparr> mh_war_id = war_id row, mh_war_end_time = war_end_time row,
       mh_player_name = player_name row, mh_player_tag = player_tag row,
       mh_town_hall = town_hall row, mh_attack_number = attack_number row,
       mh_stars = stars row, mh_destruction = destruction row \<rparr>"

text \<open>
  What one sheet adds to \<^verbatim>\<open>all_missed\<close>; \<open>None\<close> when the sheet is skipped, by
  \<^verbatim>\<open>continue\<close> or by the \<^verbatim>\<open>except\<close> clause (an empty sheet raises IndexError, a
  derived sheet KeyError).
\<close>

definition missed_of_sheet :: "io \<Rightarrow> workbook \<Rightarrow> string \<Rightarrow> missed_entry list option" where
  "missed_of_sheet env book sheet_name =
     (if is_derived_name sheet_name then None
      else case read_excel env book sheet_name of
             Inr (WarSheet has_column (row # rows)) \<Rightarrow>
               if war_complete row \<noteq> ''Yes'' then None
               else let missed_df = filter (\<lambda>r. is_missed r = ''Yes'')
                                      (with_is_missed has_column (row # rows))
                    in if missed_df = [] then None else Some (map to_missed_entry missed_df)
           | _ \<Rightarrow> None)"

text \<open>
  A stable sort in descending key order. \<^verbatim>\<open>sort_values\<close> on several columns is a
  stable lexicographic sort, which is a stable sort on each column, last column first;
  whatever the direction, it puts the rows whose key is NaN last.
\<close>

definition sort_key_desc :: "('a \<Rightarrow> 'k::linorder) \<Rightarrow> 'a list \<Rightarrow> 'a list" where
  "sort_key_desc f xs = rev (sort_key f (rev xs))"

text \<open>\<^verbatim>\<open>create_sheet(title, index)\<close>, Python's \<^verbatim>\<open>list.insert\<close>.\<close>

definition create_sheet :: "string \<Rightarrow> sheet \<Rightarrow> nat \<Rightarrow> workbook \<Rightarrow> workbook" where
  "create_sheet sheet_name sh idx book = take idx book @ [(sheet_name, sh)] @ drop idx book"

definition update_missed_hits_sheet :: "io \<Rightarrow> store \<Rightarrow> error + store" where
  "update_missed_hits_sheet env st =
     (case st of
        None \<Rightarrow> Inr st
      | Some book \<Rightarrow>
          if load_raises env then Inl IOError
          else let all_missed = List.map_filter (missed_of_sheet env book) (map fst book)
               in if all_missed = [] then Inr st
                  else let missed_df =
                             sort_key_desc (\<lambda>e. (\<not> isna (mh_war_end_time e), mh_war_end_time e))
                               (sort_key (\<lambda>e. (isna (mh_player_name e), mh_player_name e))
                                  (concat all_missed));
                           book' = (if MISSED_HITS_SHEET_NAME \<in> set (map fst book)
                                    then delete_sheet MISSED_HITS_SHEET_NAME book else book)
                       in Inr (Some (create_sheet MISSED_HITS_SHEET_NAME
                                       (MissedHitsSheet missed_df) 1 book')))"

text \<open>
  The four cells the roster loop reads from a row: \<^verbatim>\<open>Player Tag\<close>,
  \<^verbatim>\<open>Player Name\<close>, \<^verbatim>\<open>row.get('Town Hall', 0)\<close> and
  \<^verbatim>\<open>row.get('Attack Number', 0)\<close>.
\<close>

fun roster_cells :: "sheet \<Rightarrow> (string \<times> string \<times> int \<times> int) list" where
  "roster_cells (WarSheet _ rows) =
     map (\<lambda>r. (player_tag r, player_name r, town_hall r, attack_number r)) rows"
| "roster_cells (RosterSheet es) = map (\<lambda>e. (r_player_tag e, r_player_name e, 0, 0)) es"
| "roster_cells (MissedHitsSheet es) =
     map (\<lambda>e. (mh_player_tag e, mh_player_name e, mh_town_hall e, mh_attack_number e)) es"

text \<open>
  The body of the row loop of \<^verbatim>\<open>update_roster_sheet\<close>. \<^verbatim>\<open>all_players\<close> is a
  dictionary in insertion order, kept as the list of its values (one per player tag). The
  rows whose tag was read as NaN are taken to share one key, the reader's NaN.
\<close>

definition roster_row ::
  "roster_entry list \<Rightarrow> string \<times> string \<times> int \<times> int \<Rightarrow> roster_entry list" where
  "roster_row all_players cells =
     (case cells of (ptag, pname, current_th, attack_num) \<Rightarrow>
        let players1 = (if ptag \<in> set (map r_player_tag all_players) then all_players
                        else all_players @
                               [\<lparr> r_player_tag = ptag, r_player_name = pname,
                                  last_seen_th = current_th, r_total_wars = 0,
                                  wars_participated = 0 \<rparr>]);
            players2 = (if attack_num > 0
                        then map (\<lambda>e. if r_player_tag e = ptag
                                       then e\<lparr>wars_participated := wars_participated e + 1\<rparr>
                                       else e) players1
                        else players1)
        in map (\<lambda>e. if r_player_tag e = ptag \<and> current_th > last_seen_th e
                     then e\<lparr>last_seen_th := current_th\<rparr> else e) players2)"

definition roster_sheet_scan :: "io \<Rightarrow> workbook \<Rightarrow> roster_entry list \<Rightarrow> string \<Rightarrow> roster_entry list" where
  "roster_sheet_scan env book all_players sheet_name =
     (if is_derived_name sheet_name then all_players
      else case read_excel env book sheet_name of
             Inl _ \<Rightarrow> all_players
           | Inr sh \<Rightarrow> fold (\<lambda>cells players. roster_row players cells) (roster_cells sh) all_players)"

definition roster_players :: "io \<Rightarrow> workbook \<Rightarrow> roster_entry list" where
  "roster_players env book =
     (let all_players = fold (\<lambda>sheet_name players. roster_sheet_scan env book players sheet_name)
                          (map fst book) [];
          total_wars = length (filter (\<lambda>s. \<not> is_derived_name s) (map fst book))
      in map (\<lambda>e. e\<lparr>r_total_wars := total_wars\<rparr>) all_players)"

text \<open>
  \<^verbatim>\<open>update_roster_sheet\<close>. A data frame built from no players has no
  \<^verbatim>\<open>Player Name\<close> column, so sorting it raises KeyError.
\<close>

definition update_roster_sheet :: "io \<Rightarrow> store \<Rightarrow> error + store" where
  "update_roster_sheet env st =
     (case st of
        None \<Rightarrow> Inr st
      | Some book \<Rightarrow>
          if load_raises env then Inl IOError
          else let all_players = roster_players env book
               in if all_players = [] then Inl KeyError
                  else let roster_df = sort_key (\<lambda>e. (isna (r_player_name e), r_player_name e))
                                         all_players;
                           book' = (if ROSTER_SHEET_NAME \<in> set (map fst book)
                                    then delete_sheet ROSTER_SHEET_NAME book else book)
                       in Inr (Some (create_sheet ROSTER_SHEET_NAME (RosterSheet roster_df) 0 book')))"

subsection \<open>Leaderboard arithmetic\<close>

text \<open>
  The source divides in binary floating point and prints with \<^verbatim>\<open>:.1f\<close> or rounds
  with \<^verbatim>\<open>round(x, 2)\<close>. The model divides exactly and rounds to the nearest multiple
  of the unit; only when the exact quotient lies halfway between two multiples does the
  floating-point error decide the direction, and there the parameter \<open>tie_up\<close> (a function
  of the exact value) decides. Division by zero is an error value.
\<close>

definition truediv :: "int \<Rightarrow> int \<Rightarrow> error + rat" where
  "truediv a b = (if b = 0 then Inl ZeroDivisionError else Inr (of_int a / of_int b))"

definition round_units :: "(rat \<Rightarrow> bool) \<Rightarrow> rat \<Rightarrow> int" where
  "round_units tie_up x =
     (let n = \<lfloor>x\<rfloor>; frac = x - of_int n
      in if frac < 1 / 2 then n
         else if 1 / 2 < frac then n + 1
         else if tie_up x then n + 1 else n)"

definition digit_char :: "nat \<Rightarrow> char" where
  "digit_char d = char_of (48 + d)"

function show_nat :: "nat \<Rightarrow> string" where
  "show_nat n = (if n < 10 then [digit_char n] else show_nat (n div 10) @ [digit_char (n mod 10)])"
  by pat_completeness auto
termination
  by (relation "measure id") auto

text \<open>The text of \<^verbatim>\<open>f"{x:.1f}%"\<close> for a value of \<open>tenths\<close> tenths.\<close>

definition format_rate :: "nat \<Rightarrow> string" where
  "format_rate tenths = show_nat (tenths div 10) @ ''.'' @ [digit_char (tenths mod 10)] @ ''%''"

definition three_star_rate :: "(rat \<Rightarrow> bool) \<Rightarrow> int \<Rightarrow> int \<Rightarrow> error + string" where
  "three_star_rate tie_up three_stars total_attacks =
     (if total_attacks > 0
      then (case truediv three_stars total_attacks of
              Inl e \<Rightarrow> Inl e
            | Inr q \<Rightarrow> Inr (format_rate (nat (round_units tie_up (q * 100 * 10)))))
      else Inr ''0.0%'')"

text \<open>\<^verbatim>\<open>round(total_stars / total_attacks, 2)\<close>, as a rational with two decimals.\<close>

definition avg_stars_per_attack :: "(rat \<Rightarrow> bool) \<Rightarrow> int \<Rightarrow> int \<Rightarrow> error + rat" where
  "avg_stars_per_attack tie_up total_stars total_attacks =
     (if total_attacks > 0
      then (case truediv total_stars total_attacks of
              Inl e \<Rightarrow> Inl e
            | Inr q \<Rightarrow> Inr (of_int (round_units tie_up (q * 100)) / 100))
      else Inr 0)"

text \<open>
  \<^verbatim>\<open>player_stats['3 Star Rate'].str.rstrip('%').astype(float)\<close>: the number a rate
  text denotes.
\<close>

definition rstrip_char :: "char \<Rightarrow> string \<Rightarrow> string" where
  "rstrip_char c s = rev (dropWhile (\<lambda>x. x = c) (rev s))"

definition digit_val :: "char \<Rightarrow> nat" where
  "digit_val c = of_char c - 48"

definition digits_val :: "string \<Rightarrow> nat" where
  "digits_val s = foldl (\<lambda>acc c. 10 * acc + digit_val c) 0 s"

definition parse_float :: "string \<Rightarrow> rat" where
  "parse_float s =
     (let int_part = takeWhile (\<lambda>c. c \<noteq> CHR ''.'') s;
          frac_part = drop 1 (dropWhile (\<lambda>c. c \<noteq> CHR ''.'') s)
      in of_nat (digits_val int_part) + of_nat (digits_val frac_part) / 10 ^ length frac_part)"

definition sort_rate :: "string \<Rightarrow> rat" where
  "sort_rate rate = parse_float (rstrip_char (CHR ''%'') rate)"

subsection \<open>The leaderboard aggregator\<close>

text \<open>
  \<^verbatim>\<open>pd.to_datetime(..., utc=True)\<close> is a parameter of the model: it raises on text
  that is no date, and gives NaT or an instant (in microseconds) otherwise. Of NaN it
  gives NaT (\<open>end_time_of\<close>).
\<close>

datatype parsed = Unparsable | NaT | Instant int

record player_stat =
  ps_player_name :: string
  ps_player_tag :: string
  ps_total_wars :: nat
  ps_total_stars :: int
  ps_three_stars :: int
  ps_total_attacks :: int
  ps_rate :: string
  ps_avg :: rat
  ps_missed_hits :: nat

record leaderboard_entry =
  le_player_name :: string
  le_player_tag :: string
  le_three_star_rate :: string
  le_avg_stars_per_attack :: rat
  le_total_wars :: nat
  le_total_stars :: int
  le_missed_hits :: nat

definition MICROSECONDS_PER_DAY :: int where
  "MICROSECONDS_PER_DAY = 86400000000"

text \<open>\<^verbatim>\<open>if days_filter:\<close> holds for a number other than zero.\<close>

definition cutoff_date :: "int \<Rightarrow> int option \<Rightarrow> int option" where
  "cutoff_date now days_filter =
     (case days_filter of
        None \<Rightarrow> None
      | Some d \<Rightarrow> if d = 0 then None else Some (now - d * MICROSECONDS_PER_DAY))"

text \<open>
  What one sheet adds to \<^verbatim>\<open>all_data\<close>; \<open>None\<close> when the sheet is skipped (a derived
  sheet, an incomplete war, an exception, or no row left in the window).
\<close>

definition end_time_of :: "(string \<Rightarrow> parsed) \<Rightarrow> attack_record \<Rightarrow> parsed" where
  "end_time_of to_datetime r =
     (if isna (war_end_time r) then NaT else to_datetime (war_end_time r))"

definition window_rows :: "(string \<Rightarrow> parsed) \<Rightarrow> int option \<Rightarrow> attack_record list \<Rightarrow> attack_record list option" where
  "window_rows to_datetime cutoff df =
     (case cutoff of
        None \<Rightarrow> Some df
      | Some c \<Rightarrow>
          if list_ex (\<lambda>r. end_time_of to_datetime r = Unparsable) df then None
          else Some (filter (\<lambda>r. case end_time_of to_datetime r of
                                    Instant t \<Rightarrow> c \<le> t
                                  | _ \<Rightarrow> False) df))"

definition leaderboard_frame ::
  "io \<Rightarrow> (string \<Rightarrow> parsed) \<Rightarrow> int option \<Rightarrow> workbook \<Rightarrow> string \<Rightarrow> attack_record list option" where
  "leaderboard_frame env to_datetime cutoff book sheet_name =
     (if is_derived_name sheet_name then None
      else case read_excel env book sheet_name of
             Inr (WarSheet has_column (row # rows)) \<Rightarrow>
               if war_complete row \<noteq> ''Yes'' then None
               else (case window_rows to_datetime cutoff (with_is_missed has_column (row # rows)) of
                       None \<Rightarrow> None
                     | Some df \<Rightarrow> if df = [] then None else Some df)
           | _ \<Rightarrow> None)"

text \<open>
  The group key \<^verbatim>\<open>['Player Name', 'Player Tag']\<close>. \<^verbatim>\<open>groupby\<close> sorts its keys
  and, by its default \<^verbatim>\<open>dropna=True\<close>, leaves out every row whose key has a NaN.
\<close>

definition player_key :: "attack_record \<Rightarrow> string \<times> string" where
  "player_key r = (player_name r, player_tag r)"

definition group_keys :: "attack_record list \<Rightarrow> (string \<times> string) list" where
  "group_keys df =
     sort (remdups (map player_key
                      (filter (\<lambda>r. \<not> isna (player_name r) \<and> \<not> isna (player_tag r)) df)))"

definition group_of :: "attack_record list \<Rightarrow> string \<times> string \<Rightarrow> attack_record list" where
  "group_of df k = filter (\<lambda>r. player_key r = k) df"

text \<open>\<^verbatim>\<open>nunique\<close> counts the distinct war identifiers of a group that are not NaN.\<close>

definition war_participation :: "attack_record list \<Rightarrow> ((string \<times> string) \<times> nat) list" where
  "war_participation all_attacks_df =
     map (\<lambda>k. (k, length (remdups (filter (\<lambda>w. \<not> isna w)
                                      (map war_id (group_of all_attacks_df k))))))
       (group_keys all_attacks_df)"

definition count_missed :: "attack_record list \<Rightarrow> nat" where
  "count_missed grp =
     (if list_ex (\<lambda>r. attack_number r = 0) grp then 2
      else length (filter (\<lambda>r. is_missed r = ''Yes'') grp))"

text \<open>
  \<^verbatim>\<open>missed_attacks.groupby([...]).apply(count_missed).reset_index(name='Missed Hits')\<close>.
  Over at least one group \<^verbatim>\<open>apply\<close> gives a series of the counts; over no group at all
  it gives an empty data frame, and \<^verbatim>\<open>reset_index\<close> of a data frame has no parameter
  \<^verbatim>\<open>name\<close>: the call raises TypeError, which nothing catches.
\<close>

definition missed_stats :: "attack_record list \<Rightarrow> error + ((string \<times> string) \<times> nat) list" where
  "missed_stats all_attacks_df =
     (let missed_attacks = filter (\<lambda>r. is_missed r = ''Yes'' \<or> attack_number r = 0) all_attacks_df
      in if group_keys missed_attacks = [] then Inl TypeError
         else Inr (map (\<lambda>k. (k, count_missed (group_of missed_attacks k)))
                     (group_keys missed_attacks)))"

definition qualifying :: "attack_record list \<Rightarrow> attack_record list" where
  "qualifying all_attacks_df =
     filter (\<lambda>r. attack_number r > 0)
       (filter (\<lambda>r. is_loot_hit r \<noteq> CStr ''Yes'' \<and> is_missed r \<noteq> ''Yes'') all_attacks_df)"

text \<open>Total stars, three stars and total attacks of each group of \<^verbatim>\<open>combined_df\<close>.\<close>

definition attack_stats :: "attack_record list \<Rightarrow> ((string \<times> string) \<times> int \<times> int \<times> int) list" where
  "attack_stats combined_df =
     map (\<lambda>k. let grp = group_of combined_df k
              in (k, sum_list (map stars grp),
                  int (length (filter (\<lambda>r. is_triple r = ''Yes'') grp)),
                  int (length grp)))
       (group_keys combined_df)"

text \<open>
  One row of \<^verbatim>\<open>player_stats\<close>: the left merges on the group key with
  \<^verbatim>\<open>fillna(0)\<close>, then the two derived rates.
\<close>

definition stat_row ::
  "(rat \<Rightarrow> bool) \<Rightarrow> ((string \<times> string) \<times> int \<times> int \<times> int) list \<Rightarrow> ((string \<times> string) \<times> nat) list
     \<Rightarrow> (string \<times> string) \<times> nat \<Rightarrow> error + player_stat" where
  "stat_row tie_up astats mstats kw =
     (case (case map_of astats (fst kw) of None \<Rightarrow> (0, 0, 0) | Some t \<Rightarrow> t) of
        (total_stars, three_stars, total_attacks) \<Rightarrow>
          (case three_star_rate tie_up three_stars total_attacks of
             Inl e \<Rightarrow> Inl e
           | Inr rate \<Rightarrow>
               (case avg_stars_per_attack tie_up total_stars total_attacks of
                  Inl e \<Rightarrow> Inl e
                | Inr avg \<Rightarrow>
                    Inr \<lparr> ps_player_name = fst (fst kw), ps_player_tag = snd (fst kw),
                          ps_total_wars = snd kw, ps_total_stars = total_stars,
                          ps_three_stars = three_stars, ps_total_attacks = total_attacks,
                          ps_rate = rate, ps_avg = avg,
                          ps_missed_hits = (case map_of mstats (fst kw) of None \<Rightarrow> 0 | Some m \<Rightarrow> m) \<rparr>)))"

text \<open>
  A row-wise \<^verbatim>\<open>apply\<close> stops at the first exception. \<open>player_stats\<close> is the frame
  of that name, built from \<^verbatim>\<open>war_participation\<close>, \<^verbatim>\<open>attack_stats\<close> and the
  \<^verbatim>\<open>missed_stats\<close> computed before it.
\<close>

fun collect :: "(error + 'a) list \<Rightarrow> error + 'a list" where
  "collect [] = Inr []"
| "collect (x # xs) =
     (case x of
        Inl e \<Rightarrow> Inl e
      | Inr v \<Rightarrow> (case collect xs of Inl e \<Rightarrow> Inl e | Inr vs \<Rightarrow> Inr (v # vs)))"

definition player_stats ::
  "(rat \<Rightarrow> bool) \<Rightarrow> ((string \<times> string) \<times> nat) list \<Rightarrow> attack_record list
     \<Rightarrow> error + player_stat list" where
  "player_stats tie_up mstats all_attacks_df =
     collect (map (stat_row tie_up (attack_stats (qualifying all_attacks_df)) mstats)
                (war_participation all_attacks_df))"

definition to_entry :: "player_stat \<Rightarrow> leaderboard_entry" where
  "to_entry p =
     \<lparr> le_player_name = ps_player_name p, le_player_tag = ps_player_tag p,
       le_three_star_rate = ps_rate p, le_avg_stars_per_attack = ps_avg p,
       le_total_wars = ps_total_wars p, le_total_stars = ps_total_stars p,
       le_missed_hits = ps_missed_hits p \<rparr>"

text \<open>
  The sort \<^verbatim>\<open>sort_values(['_sort_rate', 'Missed Hits', 'Total Wars'],
  ascending=[False, True, False])\<close>: a stable sort on the lexicographic key, the
  descending columns negated.
\<close>

definition rank_key :: "leaderboard_entry \<Rightarrow> rat \<times> int \<times> int" where
  "rank_key e = (- sort_rate (le_three_star_rate e), int (le_missed_hits e), - int (le_total_wars e))"

text \<open>The rows of every complete war in the window: \<^verbatim>\<open>all_attacks_df\<close>.\<close>

definition all_data :: "io \<Rightarrow> (string \<Rightarrow> parsed) \<Rightarrow> int option \<Rightarrow> workbook \<Rightarrow> attack_record list list" where
  "all_data env to_datetime cutoff book =
     List.map_filter (leaderboard_frame env to_datetime cutoff book) (map fst book)"

text \<open>
  The aggregation once the frames are read: \<open>Inr None\<close> is the source's
  \<^verbatim>\<open>return None\<close>. The missed-hit counts are computed before the test for an empty
  \<^verbatim>\<open>combined_df\<close>.
\<close>

definition aggregate :: "(rat \<Rightarrow> bool) \<Rightarrow> attack_record list list \<Rightarrow> error + leaderboard_entry list option" where
  "aggregate tie_up frames =
     (if frames = [] then Inr None
      else let all_attacks_df = concat frames
           in case missed_stats all_attacks_df of
                Inl e \<Rightarrow> Inl e
              | Inr mstats \<Rightarrow>
                  if qualifying all_attacks_df = [] then Inr None
                  else (case player_stats tie_up mstats all_attacks_df of
                          Inl e \<Rightarrow> Inl e
                        | Inr ps \<Rightarrow> Inr (Some (sort_key rank_key (map to_entry ps)))))"

definition calculate_leaderboard ::
  "io \<Rightarrow> (string \<Rightarrow> parsed) \<Rightarrow> (rat \<Rightarrow> bool) \<Rightarrow> int \<Rightarrow> store \<Rightarrow> int option
     \<Rightarrow> error + leaderboard_entry list option" where
  "calculate_leaderboard env to_datetime tie_up now st days_filter =
     (case st of
        None \<Rightarrow> Inr None
      | Some book \<Rightarrow>
          if load_raises env then Inl IOError
          else aggregate tie_up (all_data env to_datetime (cutoff_date now days_filter) book))"

subsection \<open>One run\<close>

text \<open>
  The three store updates of the two saving branches of \<^verbatim>\<open>main\<close>. An exception of
  any of them is not caught: the run ends there, and the store stays as the last completed
  write left it. The result is the store and the uncaught exception, if any.
\<close>

definition save_and_rebuild :: "io \<Rightarrow> store \<Rightarrow> war_data \<Rightarrow> store \<times> error option" where
  "save_and_rebuild env st wd =
     (case save_war_to_excel env st (Some wd) of
        Inl e \<Rightarrow> (st, Some e)
      | Inr (st1, _) \<Rightarrow>
          (case update_roster_sheet env st1 of
             Inl e \<Rightarrow> (st1, Some e)
           | Inr st2 \<Rightarrow>
               (case update_missed_hits_sheet env st2 of
                  Inl e \<Rightarrow> (st2, Some e)
                | Inr st3 \<Rightarrow> (st3, None))))"

text \<open>
  The war part of \<^verbatim>\<open>main\<close>, from the fetched snapshot to the store. The branch of an
  ended war also posts the Discord report, which does not touch the store and swallows its
  own exceptions.
\<close>

definition store_war :: "io \<Rightarrow> string \<Rightarrow> store \<Rightarrow> war option \<Rightarrow> store \<times> error option" where
  "store_war env now_ts st wo =
     (case wo of
        None \<Rightarrow> (st, None)
      | Some w \<Rightarrow>
          if opt_default ''notInWar'' (w_state w) = ''notInWar'' then (st, None)
          else if is_cwl_war w then (st, None)
          else (case process_war env st now_ts True (Some w) of
                  None \<Rightarrow> (st, None)
                | Some wd \<Rightarrow>
                    (case war_already_saved env st (wd_war_id wd) of
                       (exists, is_complete) \<Rightarrow>
                         if is_complete then (st, None)
                         else if is_ended wd then save_and_rebuild env st wd
                         else save_and_rebuild env st wd)))"

definition periods :: "(int option \<times> string) list" where
  "periods = [(None, ''leaderboard_all.json''), (Some 7, ''leaderboard_7d.json''),
              (Some 30, ''leaderboard_30d.json''), (Some 90, ''leaderboard_90d.json'')]"

text \<open>The loop over the periods: the JSON files written, and the uncaught exception.\<close>

fun export_periods ::
  "io \<Rightarrow> (string \<Rightarrow> parsed) \<Rightarrow> (rat \<Rightarrow> bool) \<Rightarrow> int \<Rightarrow> store \<Rightarrow> (int option \<times> string) list
     \<Rightarrow> (string \<times> leaderboard_entry list) list \<times> error option" where
  "export_periods env to_datetime tie_up now st [] = ([], None)"
| "export_periods env to_datetime tie_up now st (p # ps) =
     (case calculate_leaderboard env to_datetime tie_up now st (fst p) of
        Inl e \<Rightarrow> ([], Some e)
      | Inr lbo \<Rightarrow>
          (case export_periods env to_datetime tie_up now st ps of
             (files, err) \<Rightarrow>
               ((case lbo of
                   None \<Rightarrow> []
                 | Some lb \<Rightarrow> if lb \<noteq> [] then [(snd p, lb)] else []) @ files, err)))"

text \<open>
  The result of a run: the store it leaves, the JSON files it writes and the exception that
  ended it, if any. When the fetch failed (\<open>None\<close>) \<^verbatim>\<open>main\<close> returns at once,
  before the leaderboards.
\<close>

record run_result =
  store_after :: store
  exports :: "(string \<times> leaderboard_entry list) list"
  uncaught :: "error option"

definition main ::
  "io \<Rightarrow> (string \<Rightarrow> parsed) \<Rightarrow> (rat \<Rightarrow> bool) \<Rightarrow> int \<Rightarrow> string \<Rightarrow> store \<Rightarrow> war option \<Rightarrow> run_result" where
  "main env to_datetime tie_up now now_ts st wo =
     (case wo of
        None \<Rightarrow> \<lparr> store_after = st, exports = [], uncaught = None \<rparr>
      | Some w \<Rightarrow>
          (case store_war env now_ts st (Some w) of
             (st', Some e) \<Rightarrow> \<lparr> store_after = st', exports = [], uncaught = Some e \<rparr>
           | (st', None) \<Rightarrow>
               (case export_periods env to_datetime tie_up now st' periods of
                  (files, err) \<Rightarrow> \<lparr> store_after = st', exports = files, uncaught = err \<rparr>)))"

subsection \<open>Scenarios\<close>

text \<open>Concrete snapshots and stores, used to run the definitions above.\<close>

definition attack_of :: "int \<Rightarrow> rat \<Rightarrow> attack" where
  "attack_of s d = \<lparr> a_stars = Some s, a_destructionPercentage = Some d \<rparr>"

definition member_of :: "string \<Rightarrow> string \<Rightarrow> attack list \<Rightarrow> member" where
  "member_of ptag pname atts =
     \<lparr> m_tag = Some ptag, m_name = Some pname, m_townhallLevel = Some 15,
       m_mapPosition = Some 1, m_attacks = Some atts \<rparr>"

definition war_of :: "string \<Rightarrow> string \<Rightarrow> member list \<Rightarrow> war" where
  "war_of state prep mems =
     \<lparr> w_state = Some state, w_preparationStartTime = Some prep,
       w_endTime = Some ''20240103T000000.000Z'', w_teamSize = Some 5,
       w_warLeague = None, w_members = Some mems \<rparr>"

definition no_faults :: io where
  "no_faults = \<lparr> load_raises = False, read_raises = {} \<rparr>"

text \<open>A stored row: player, attack number, stars, and the three flags.\<close>

definition row_of ::
  "string \<Rightarrow> string \<Rightarrow> string \<Rightarrow> string \<Rightarrow> int \<Rightarrow> int \<Rightarrow> rat \<Rightarrow> cell \<Rightarrow> attack_record" where
  "row_of wid wc pname ptag num st destr loot =
     \<lparr> war_id = wid, war_state = (if wc = ''Yes'' then ''warEnded'' else ''inWar''),
       war_complete = wc, war_end_time = ''20240103T000000.000Z'', team_size = 5,
       player_name = pname, player_tag = ptag, town_hall = 15, map_position = 1,
       attack_number = num, stars = st, destruction = destr,
       is_triple = yes_no (st = 3),
       is_missed = yes_no (num = 0 \<or> (st = 0 \<and> destr = 0)),
       is_loot_hit = loot \<rparr>"

definition ended_snapshot :: war where
  "ended_snapshot = war_of ''ended'' ''20240101T000000.000Z''
     [member_of ''#P'' ''pat'' [attack_of 3 100], member_of ''#Q'' ''quinn'' []]"

definition war_ended_snapshot :: war where
  "war_ended_snapshot = war_of ''warEnded'' ''20240101T000000.000Z''
     [member_of ''#P'' ''pat'' [attack_of 3 100], member_of ''#Q'' ''quinn'' []]"

definition in_war_snapshot :: war where
  "in_war_snapshot = war_of ''inWar'' ''20240101T000000.000Z''
     [member_of ''#P'' ''pat'' [attack_of 3 100, attack_of 2 80], member_of ''#Q'' ''quinn'' []]"

text \<open>The sheet of a complete war, and the sheet of a war in progress with hand-made marks.\<close>

definition complete_store :: store where
  "complete_store = Some [(''20240101T000000-000Z'', WarSheet True
     [row_of ''20240101T000000-000Z'' ''Yes'' ''pat'' ''#P'' 1 3 100 (CStr ''Yes''),
      row_of ''20240101T000000-000Z'' ''Yes'' ''quinn'' ''#Q'' 0 0 0 (CStr ''No'')])]"

definition marked_store :: store where
  "marked_store = Some [(''20240101T000000-000Z'', WarSheet True
     [row_of ''20240101T000000-000Z'' ''No'' ''pat'' ''#P'' 1 3 100 (CStr ''No''),
      row_of ''20240101T000000-000Z'' ''No'' ''pat'' ''#P'' 2 2 80 (CBool True),
      row_of ''20240101T000000-000Z'' ''No'' ''quinn'' ''#Q'' 0 0 0 (CStr ''Yes'')])]"

text \<open>An environment in which the sheet of that war cannot be read although the file opens.\<close>

definition unreadable_sheet :: io where
  "unreadable_sheet = \<lparr> load_raises = False, read_raises = {''20240101T000000-000Z''} \<rparr>"

subsection \<open>Auxiliary definitions\<close>

text \<open>The numbers a row of \<^verbatim>\<open>player_stats\<close> is built from, after the left merges.\<close>

definition merged_stats ::
  "((string \<times> string) \<times> int \<times> int \<times> int) list \<Rightarrow> string \<times> string \<Rightarrow> int \<times> int \<times> int" where
  "merged_stats astats k = (case map_of astats k of None \<Rightarrow> (0, 0, 0) | Some t \<Rightarrow> t)"

text \<open>
  Two complete wars: pat attacks once in each, quinn attacks in neither (one sentinel row
  per war).
\<close>

definition two_wars_store :: store where
  "two_wars_store = Some
     [(''20240101T000000-000Z'', WarSheet True
        [row_of ''20240101T000000-000Z'' ''Yes'' ''pat'' ''#P'' 1 3 100 (CStr ''No''),
         row_of ''20240101T000000-000Z'' ''Yes'' ''quinn'' ''#Q'' 0 0 0 (CStr ''No'')]),
      (''20240105T000000-000Z'', WarSheet True
        [row_of ''20240105T000000-000Z'' ''Yes'' ''pat'' ''#P'' 1 2 80 (CStr ''No''),
         row_of ''20240105T000000-000Z'' ''Yes'' ''quinn'' ''#Q'' 0 0 0 (CStr ''No'')])]"


text \<open>One complete war in which the only member made no attack.\<close>

definition no_attack_store :: store where
  "no_attack_store = Some
     [(''20240101T000000-000Z'', WarSheet True
        [row_of ''20240101T000000-000Z'' ''Yes'' ''quinn'' ''#Q'' 0 0 0 (CStr ''No'')])]"

text \<open>One war in progress in which pat has made two attacks.\<close>

definition one_war_store :: store where
  "one_war_store = Some
     [(''20240101T000000-000Z'', WarSheet True
        [row_of ''20240101T000000-000Z'' ''No'' ''pat'' ''#P'' 1 3 100 (CStr ''No''),
         row_of ''20240101T000000-000Z'' ''No'' ''pat'' ''#P'' 2 2 80 (CStr ''No'')])]"


text \<open>
  The missed-hit count as the specification words it, evaluated per war: for each war in
  which the player has a row, 2 if the player has a sentinel row (attack number 0) in that
  war, otherwise the number of rows of the player in that war with
  \<^verbatim>\<open>Is Missed = 'Yes'\<close>; summed over the wars.
\<close>

definition missed_in_war :: "attack_record list \<Rightarrow> nat" where
  "missed_in_war rows =
     (if list_ex (\<lambda>r. attack_number r = 0) rows then 2
      else length (filter (\<lambda>r. is_missed r = ''Yes'') rows))"

definition missed_hits_per_war :: "attack_record list \<Rightarrow> string \<times> string \<Rightarrow> nat" where
  "missed_hits_per_war df k =
     sum_list (map (\<lambda>w. missed_in_war (filter (\<lambda>r. war_id r = w) (group_of df k)))
                 (remdups (map war_id (group_of df k))))"

text \<open>
  A war in progress in which the one member carries the tag \<^verbatim>\<open>NA\<close>, and its stored
  sheet, with a mark on that member's attack.
\<close>

definition na_tag_snapshot :: war where
  "na_tag_snapshot = war_of ''inWar'' ''20240101T000000.000Z''
     [member_of ''NA'' ''pat'' [attack_of 3 100]]"

definition na_tag_store :: store where
  "na_tag_store = Some [(''20240101T000000-000Z'', WarSheet True
     [row_of ''20240101T000000-000Z'' ''No'' ''pat'' ''NA'' 1 3 100 (CStr ''Yes'')])]"

text \<open>One complete war without a missed attack and without a sentinel row.\<close>

definition no_missed_store :: store where
  "no_missed_store = Some
     [(''20240101T000000-000Z'', WarSheet True
        [row_of ''20240101T000000-000Z'' ''Yes'' ''zed'' ''#Z'' 1 3 100 (CStr ''No''),
         row_of ''20240101T000000-000Z'' ''Yes'' ''amy'' ''#A'' 1 2 80 (CStr ''No'')])]"

text \<open>One complete war in which a player is named \<^verbatim>\<open>NA\<close>.\<close>

definition na_name_store :: store where
  "na_name_store = Some
     [(''20240101T000000-000Z'', WarSheet True
        [row_of ''20240101T000000-000Z'' ''Yes'' ''NA'' ''#N'' 1 3 100 (CStr ''No''),
         row_of ''20240101T000000-000Z'' ''Yes'' ''pat'' ''#P'' 1 2 80 (CStr ''No''),
         row_of ''20240101T000000-000Z'' ''Yes'' ''quinn'' ''#Q'' 0 0 0 (CStr ''No'')])]"

text \<open>
  The player tag, attack number and \<^verbatim>\<open>Is Loot Hit\<close> cell of every row stored in a
  war sheet of the store.
\<close>

definition stored_marks :: "store \<Rightarrow> string \<Rightarrow> (string \<times> int \<times> cell) list" where
  "stored_marks st sheet_name =
     (case st of
        None \<Rightarrow> []
      | Some book \<Rightarrow>
          (case map_of book sheet_name of
             Some (WarSheet has_column rows) \<Rightarrow>
               map (\<lambda>r. (player_tag r, attack_number r, is_loot_hit r)) rows
           | _ \<Rightarrow> []))"

section \<open>Properties\<close>

lemma yes_no_eq_Yes: "(yes_no b = ''Yes'') = b"
  by (simp add: yes_no_def)

lemma read_text_eq_Yes: "(read_text s = ''Yes'') = (s = ''Yes'')"
  by (auto simp: read_text_def reads_as_nan_def NA_VALUES_def ERROR_CODES_def)

lemma read_text_keeps: "\<not> isna (read_text s) \<Longrightarrow> read_text s = s"
  by (auto simp: read_text_def isna_def)

lemma first_row_complete_read: "first_row_complete (read_sheet sh) = first_row_complete sh"
  by (cases sh rule: first_row_complete.cases) (simp_all add: read_row_def read_text_eq_Yes)

lemma is_loot_mark_read: "is_loot_mark (read_cell c) = is_loot_mark c"
  by (cases c) (auto simp: reads_as_nan_def NA_VALUES_def ERROR_CODES_def)


lemma map_of_delete_sheet:
  "map_of (delete_sheet m book) n = (if n = m then None else map_of book n)"
  by (induction book) (auto simp: delete_sheet_def)

lemma map_of_insert_other:
  "n \<noteq> m \<Longrightarrow> map_of (xs @ (m, v) # ys) n = map_of (xs @ ys) n"
  by (induction xs) auto

lemma map_of_create_sheet:
  "n \<noteq> m \<Longrightarrow> map_of (create_sheet m sh i book) n = map_of book n"
  unfolding create_sheet_def using map_of_insert_other [of n m "take i book" sh "drop i book"]
  by simp

lemma map_of_delete_if:
  "n \<noteq> m \<Longrightarrow> map_of (if c then delete_sheet m book else book) n = map_of book n"
  by (simp add: map_of_delete_sheet)

lemma derived_names:
  "\<not> is_derived_name n \<Longrightarrow> n \<noteq> ROSTER_SHEET_NAME \<and> n \<noteq> MISSED_HITS_SHEET_NAME"
  by (simp add: is_derived_name_def)

lemma update_roster_sheet_keeps:
  assumes "update_roster_sheet env (Some book) = Inr st'" and "\<not> is_derived_name n"
  shows "\<exists>book'. st' = Some book' \<and> map_of book' n = map_of book n"
  using assms derived_names [OF assms(2)]
  by (auto simp: update_roster_sheet_def Let_def map_of_create_sheet map_of_delete_sheet
      split: if_splits)

lemma update_missed_hits_sheet_keeps:
  assumes "update_missed_hits_sheet env (Some book) = Inr st'" and "\<not> is_derived_name n"
  shows "\<exists>book'. st' = Some book' \<and> map_of book' n = map_of book n"
  using assms derived_names [OF assms(2)]
  by (auto simp: update_missed_hits_sheet_def Let_def map_of_create_sheet map_of_delete_sheet
      split: if_splits)

lemma map_of_append_one:
  "map_of (xs @ [(n, v)]) m =
     (case map_of xs m of Some x \<Rightarrow> Some x | None \<Rightarrow> if m = n then Some v else None)"
  by (induction xs) auto

lemma map_of_deleted_if_present:
  "map_of (if n \<in> set (map fst book) then delete_sheet n book else book) m =
     (if m = n then None else map_of book m)"
proof (cases "n \<in> set (map fst book)")
  case True
  then show ?thesis by (simp add: map_of_delete_sheet)
next
  case False
  then have "map_of book n = None"
    by (simp add: map_of_eq_None_iff)
  with False show ?thesis by auto
qed

lemma save_war_to_excel_sheets:
  assumes "save_war_to_excel env (Some book) (Some wd) = Inr (st', b)"
  shows "\<exists>book'. st' = Some book' \<and>
           (\<forall>n. map_of book' n =
              (if b \<and> n = take EXCEL_SHEET_LIMIT (wd_war_id wd)
               then Some (WarSheet True (war_details wd)) else map_of book n))"
proof (cases "war_details wd = []")
  case True
  then show ?thesis
    using assms by (auto simp: save_war_to_excel_def)
next
  case False
  let ?n = "take EXCEL_SHEET_LIMIT (wd_war_id wd)"
  let ?book' = "(if ?n \<in> set (map fst book) then delete_sheet ?n book else book)
                  @ [(?n, WarSheet True (war_details wd))]"
  have res: "st' = Some ?book'" "b"
    using assms False by (simp_all add: save_war_to_excel_def Let_def split: if_splits)
  have "map_of ?book' m =
          (if m = ?n then Some (WarSheet True (war_details wd)) else map_of book m)" for m
    unfolding map_of_append_one map_of_deleted_if_present
    by (simp split: option.splits)
  then show ?thesis
    using res by simp
qed

lemma member_rows_flags:
  "r \<in> set (member_rows wid w loot mem) \<Longrightarrow>
     war_complete r = yes_no (is_war_ended w) \<and>
     (attack_number r = 0 \<longrightarrow> is_loot_hit r = CStr ''No'')"
  by (auto simp: member_rows_def attack_row_def sentinel_row_def Let_def in_set_enumerate_eq
      split: if_splits)

lemma process_war_Some:
  "process_war env st now_ts keep (Some w) = Some wd \<Longrightarrow>
     wd = \<lparr> wd_war_id = get_war_id now_ts w,
            war_details = concat (map (member_rows (get_war_id now_ts w) w
               (if keep then get_existing_loot_hits env st (get_war_id now_ts w) else Map.empty))
               (opt_default [] (w_members w))),
            is_ended = is_war_ended w \<rparr>"
  by (simp add: process_war_def Let_def)

lemma sentinel_in_member_rows:
  "opt_default [] (m_attacks mem) = [] \<Longrightarrow> member_rows wid w loot mem = [sentinel_row wid w mem]"
  by (simp add: member_rows_def)

text \<open>
  Claim C10. For every member without attacks, the sentinel row (attack number 0) that
  \<^verbatim>\<open>process_war\<close> emits has \<^verbatim>\<open>Is Loot Hit = 'No'\<close>, whatever the existing loot
  annotations hold for that player tag, attack number 0 included: every row numbered 0 in
  the output is marked \<^verbatim>\<open>'No'\<close>, and each such member has its sentinel row there.
\<close>

theorem sentinel_is_never_loot_hit:
  assumes "process_war env st now_ts keep (Some w) = Some wd"
  shows "(\<forall>r\<in>set (war_details wd). attack_number r = 0 \<longrightarrow> is_loot_hit r = CStr ''No'') \<and>
         (\<forall>mem\<in>set (opt_default [] (w_members w)). opt_default [] (m_attacks mem) = [] \<longrightarrow>
            sentinel_row (wd_war_id wd) w mem \<in> set (war_details wd) \<and>
            attack_number (sentinel_row (wd_war_id wd) w mem) = 0 \<and>
            is_loot_hit (sentinel_row (wd_war_id wd) w mem) = CStr ''No'')"
proof -
  define loot where "loot =
    (if keep then get_existing_loot_hits env st (get_war_id now_ts w) else Map.empty)"
  have wid: "wd_war_id wd = get_war_id now_ts w"
    and details: "war_details wd =
      concat (map (member_rows (get_war_id now_ts w) w loot) (opt_default [] (w_members w)))"
    using assms by (auto simp: process_war_def Let_def loot_def)
  have a: "is_loot_hit r = CStr ''No''" if "r \<in> set (war_details wd)" "attack_number r = 0" for r
    using that member_rows_flags unfolding details by auto
  have b: "sentinel_row (wd_war_id wd) w mem \<in> set (war_details wd)"
    if "mem \<in> set (opt_default [] (w_members w))" "opt_default [] (m_attacks mem) = []" for mem
  proof -
    have "sentinel_row (get_war_id now_ts w) w mem
            \<in> set (member_rows (get_war_id now_ts w) w loot mem)"
      using sentinel_in_member_rows [OF that(2)] by simp
    then show ?thesis
      unfolding details wid using that(1) by auto
  qed
  show ?thesis
    using a b by (simp add: sentinel_row_def)
qed

lemma in_loot_row_mono: "in_loot m p n \<Longrightarrow> in_loot (loot_hits_row m r) p n"
  by (auto simp: in_loot_def loot_hits_row_def split: option.splits)

lemma in_loot_fold_mono:
  "in_loot m p n \<Longrightarrow> in_loot (fold (\<lambda>row l. loot_hits_row l row) rows m) p n"
  by (induction rows arbitrary: m) (auto intro: in_loot_row_mono)

lemma in_loot_row_marked:
  "is_loot_mark (is_loot_hit r) \<Longrightarrow> \<not> isna (player_tag r) \<Longrightarrow>
     in_loot (loot_hits_row m r) (player_tag r) (attack_number r)"
  by (auto simp: in_loot_def loot_hits_row_def split: option.splits)

lemma in_loot_fold:
  "r \<in> set rows \<Longrightarrow> is_loot_mark (is_loot_hit r) \<Longrightarrow> \<not> isna (player_tag r) \<Longrightarrow>
     in_loot (fold (\<lambda>row l. loot_hits_row l row) rows m) (player_tag r) (attack_number r)"
proof (induction rows arbitrary: m)
  case Nil
  then show ?case by simp
next
  case (Cons x xs)
  show ?case
  proof (cases "r = x")
    case True
    then show ?thesis
      using Cons.prems(2,3) by (simp add: in_loot_fold_mono in_loot_row_marked)
  next
    case False
    then show ?thesis using Cons by simp
  qed
qed

lemma existing_loot_marked:
  assumes "map_of book (take EXCEL_SHEET_LIMIT wid) = Some (WarSheet h rows)"
    and "\<not> load_raises env" and "take EXCEL_SHEET_LIMIT wid \<notin> read_raises env"
    and "r \<in> set rows" and "is_loot_mark (is_loot_hit r)"
    and "\<not> isna (read_text (player_tag r))"
  shows "in_loot (get_existing_loot_hits env (Some book) wid) (player_tag r) (attack_number r)"
proof -
  have rd: "read_excel env book (take EXCEL_SHEET_LIMIT wid) = Inr (WarSheet h (map read_row rows))"
    using assms(1,2,3) by (simp add: read_excel_def)
  have "read_row r \<in> set (map read_row rows)"
    using assms(4) by simp
  moreover have "is_loot_mark (is_loot_hit (read_row r))"
    using assms(5) by (simp add: read_row_def is_loot_mark_read)
  moreover have "player_tag (read_row r) = player_tag r" "\<not> isna (player_tag (read_row r))"
    "attack_number (read_row r) = attack_number r"
    using read_text_keeps [OF assms(6)] assms(6) by (simp_all add: read_row_def)
  ultimately have "in_loot (fold (\<lambda>row l. loot_hits_row l row) (map read_row rows) Map.empty)
      (player_tag r) (attack_number r)"
    using in_loot_fold [of "read_row r" "map read_row rows" Map.empty] by simp
  then show ?thesis
    by (simp add: get_existing_loot_hits_def rd)
qed

lemma member_rows_loot:
  assumes "m_tag mem = Some P" and "0 < N" and "nat N \<le> length (opt_default [] (m_attacks mem))"
    and "in_loot loot P N"
  shows "\<exists>r\<in>set (member_rows wid w loot mem).
           player_tag r = P \<and> attack_number r = N \<and> is_loot_hit r = CStr ''Yes''"
proof -
  let ?atts = "opt_default [] (m_attacks mem)"
  let ?ia = "(nat N, ?atts ! (nat N - 1))"
  have "?ia \<in> set (List.enumerate 1 ?atts)"
    using assms(2,3) by (auto simp: in_set_enumerate_eq)
  then have "attack_row wid w loot mem ?ia \<in> set (member_rows wid w loot mem)"
    by (simp add: member_rows_def Let_def)
  moreover have "player_tag (attack_row wid w loot mem ?ia) = P"
    "attack_number (attack_row wid w loot mem ?ia) = N"
    "is_loot_hit (attack_row wid w loot mem ?ia) = CStr ''Yes''"
    using assms by (simp_all add: attack_row_def Let_def opt_default_def yes_no_def)
  ultimately show ?thesis by blast
qed

lemma member_rows_loot_all:
  assumes "r \<in> set (member_rows wid w loot mem)" and "attack_number r \<noteq> 0"
    and "in_loot loot (player_tag r) (attack_number r)"
  shows "is_loot_hit r = CStr ''Yes''"
  using assms
  by (auto simp: member_rows_def attack_row_def sentinel_row_def Let_def yes_no_def
      split: if_splits)

lemma store_after_main:
  "store_after (main env to_datetime tie_up now now_ts st wo) = fst (store_war env now_ts st wo)"
  by (auto simp: main_def store_war_def split: prod.splits option.splits)


lemma save_war_to_excel_flag:
  assumes "save_war_to_excel env (Some book) (Some wd) = Inr (st', b)"
  shows "b = (war_details wd \<noteq> [])" and "b \<longrightarrow> \<not> load_raises env"
  using assms by (auto simp: save_war_to_excel_def Let_def split: if_splits)

lemma save_war_to_excel_Inl:
  "save_war_to_excel env st wdo = Inl e \<Longrightarrow> load_raises env"
  by (auto simp: save_war_to_excel_def Let_def split: if_splits option.splits)

lemma save_and_rebuild_sheets:
  assumes "save_and_rebuild env (Some book) wd = (st', err)" and "\<not> is_derived_name n"
  shows "\<exists>book'. st' = Some book' \<and>
           map_of book' n =
             (if war_details wd \<noteq> [] \<and> \<not> load_raises env \<and> n = take EXCEL_SHEET_LIMIT (wd_war_id wd)
              then Some (WarSheet True (war_details wd)) else map_of book n)"
proof -
  define tgt where "tgt =
    (if war_details wd \<noteq> [] \<and> \<not> load_raises env \<and> n = take EXCEL_SHEET_LIMIT (wd_war_id wd)
     then Some (WarSheet True (war_details wd)) else map_of book n)"
  have "\<exists>book'. st' = Some book' \<and> map_of book' n = tgt"
  proof (cases "save_war_to_excel env (Some book) (Some wd)")
    case (Inl e)
    have "tgt = map_of book n"
      using save_war_to_excel_Inl [OF Inl] by (simp add: tgt_def)
    then show ?thesis
      using assms(1) Inl by (auto simp: save_and_rebuild_def)
  next
    case (Inr p)
    obtain st1 b where p: "p = (st1, b)" by (cases p)
    from Inr p have sv: "save_war_to_excel env (Some book) (Some wd) = Inr (st1, b)" by simp
    obtain book1 where b1: "st1 = Some book1"
      and m1: "map_of book1 n =
        (if b \<and> n = take EXCEL_SHEET_LIMIT (wd_war_id wd)
         then Some (WarSheet True (war_details wd)) else map_of book n)"
      using save_war_to_excel_sheets [OF sv] by blast
    have m1': "map_of book1 n = tgt"
      using m1 save_war_to_excel_flag [OF sv] by (auto simp: tgt_def)
    show ?thesis
    proof (cases "update_roster_sheet env st1")
      case (Inl e)
      then show ?thesis
        using assms(1) sv b1 m1' by (auto simp: save_and_rebuild_def)
    next
      case r: (Inr st2)
      obtain book2 where b2: "st2 = Some book2" and m2: "map_of book2 n = map_of book1 n"
        using update_roster_sheet_keeps [OF r [unfolded b1] assms(2)] by blast
      show ?thesis
      proof (cases "update_missed_hits_sheet env st2")
        case (Inl e)
        then show ?thesis
          using assms(1) sv r b2 m2 m1' by (auto simp: save_and_rebuild_def)
      next
        case m: (Inr st3)
        obtain book3 where b3: "st3 = Some book3" and m3: "map_of book3 n = map_of book2 n"
          using update_missed_hits_sheet_keeps [OF m [unfolded b2] assms(2)] by blast
        show ?thesis
          using assms(1) sv r m b3 m3 m2 m1' by (auto simp: save_and_rebuild_def)
      qed
    qed
  qed
  then show ?thesis by (simp only: tgt_def)
qed

lemma war_already_saved_complete:
  assumes "map_of book (take EXCEL_SHEET_LIMIT wid) = Some sh" and "first_row_complete sh"
    and "\<not> load_raises env" and "take EXCEL_SHEET_LIMIT wid \<notin> read_raises env"
  shows "war_already_saved env (Some book) wid = (True, True)"
proof -
  have "take EXCEL_SHEET_LIMIT wid \<in> set (map fst book)"
    using assms(1) by (metis map_of_eq_None_iff option.distinct(1) set_map)
  then show ?thesis
    using assms
    by (simp add: war_already_saved_def read_excel_def Let_def first_row_complete_read)
qed

lemma complete_sheet_kept:
  assumes "map_of book n = Some sh" and "first_row_complete sh"
    and "n \<notin> read_raises env" and "\<not> is_derived_name n"
  shows "\<exists>book'. fst (store_war env now_ts (Some book) wo) = Some book' \<and> map_of book' n = Some sh"
proof (cases wo)
  case None
  then show ?thesis using assms(1) by (simp add: store_war_def)
next
  case (Some w)
  let ?wid = "get_war_id now_ts w"
  obtain wd where wd: "process_war env (Some book) now_ts True (Some w) = Some wd"
    by (simp add: process_war_def Let_def)
  have wid: "wd_war_id wd = ?wid"
    using process_war_Some [OF wd] by (metis war_data.select_convs(1))
  obtain ex cpl where was: "war_already_saved env (Some book) ?wid = (ex, cpl)"
    by (cases "war_already_saved env (Some book) ?wid")
  obtain st' err where sr: "save_and_rebuild env (Some book) wd = (st', err)"
    by (cases "save_and_rebuild env (Some book) wd")
  have saved: "\<exists>book'. st' = Some book' \<and> map_of book' n = Some sh" if "\<not> cpl"
  proof -
    have "\<not> (\<not> load_raises env \<and> n = take EXCEL_SHEET_LIMIT ?wid)"
      using war_already_saved_complete [of book ?wid sh env] assms was that by auto
    then show ?thesis
      using save_and_rebuild_sheets [OF sr assms(4)] assms(1) wid by auto
  qed
  show ?thesis
    using Some wd wid was sr saved assms(1)
    by (auto simp: store_war_def split: if_splits)
qed

text \<open>
  Claim C3, as stated: once the completeness flag of a war is true, no later run alters its
  stored records. It fails when the run cannot read the stored sheet: the existence check
  then reports the war as absent and incomplete, and a run that fetches the same ended war
  replaces the complete record set, here losing the mark on attack 1 of #P.
\<close>

theorem complete_war_altered_counterexample:
  "war_already_saved no_faults complete_store ''20240101T000000-000Z'' = (True, True) \<and>
   war_already_saved unreadable_sheet complete_store ''20240101T000000-000Z'' = (False, False) \<and>
   stored_marks complete_store ''20240101T000000-000Z''
     = [(''#P'', 1, CStr ''Yes''), (''#Q'', 0, CStr ''No'')] \<and>
   stored_marks
     (store_after (main unreadable_sheet (\<lambda>s. NaT) (\<lambda>x. False) 0 ''0'' complete_store
                     (Some war_ended_snapshot)))
     ''20240101T000000-000Z''
     = [(''#P'', 1, CStr ''No''), (''#Q'', 0, CStr ''No'')]"
  by code_simp

text \<open>
  Claim C3, amended. For every run: if the existence check reports the stored record set of
  the fetched war as complete, the run leaves the store as it was (no save, no rebuilt
  view). A stored war sheet (one not named as a derived view) whose first row is complete,
  and that the run can read, is still in the store, unchanged, after any run, whatever
  snapshot was fetched.
\<close>

theorem complete_war_is_not_saved:
  "(snd (war_already_saved env st (get_war_id now_ts w)) \<longrightarrow>
      store_after (main env to_datetime tie_up now now_ts st (Some w)) = st) \<and>
   (map_of book n = Some sh \<and> first_row_complete sh \<and> n \<notin> read_raises env \<and> \<not> is_derived_name n \<longrightarrow>
      (\<exists>book'. store_after (main env to_datetime tie_up now now_ts (Some book) wo) = Some book' \<and>
                map_of book' n = Some sh))"
proof -
  have "store_after (main env to_datetime tie_up now now_ts st (Some w)) = st"
    if "snd (war_already_saved env st (get_war_id now_ts w))"
    using that
    by (auto simp: store_after_main store_war_def process_war_def Let_def split: prod.splits)
  then show ?thesis
    using complete_sheet_kept [of book n sh env now_ts wo] by (simp add: store_after_main)
qed

lemmas scenario_defs = war_of_def member_of_def attack_of_def no_faults_def row_of_def

lemmas process_war_eval = process_war_def get_war_id_def replace_char_def Let_def
  member_rows_def attack_row_def sentinel_row_def opt_default_def is_war_ended_def yes_no_def
  in_loot_def enumerate_eq_zip

lemmas read_eval = get_existing_loot_hits_def read_excel_def loot_hits_row_def
  war_already_saved_def EXCEL_SHEET_LIMIT_def read_row_def read_text_def reads_as_nan_def
  NA_VALUES_def ERROR_CODES_def isna_def

text \<open>
  Claim C5, as stated: the war-complete flag is true iff the state field equals
  \<^verbatim>\<open>"ended"\<close>. It fails: a snapshot in state \<^verbatim>\<open>"ended"\<close> is normalized with the
  flag \<^verbatim>\<open>'No'\<close> on every record.
\<close>

theorem war_complete_ended_counterexample:
  "w_state ended_snapshot = Some ''ended'' \<and>
   map_option is_ended (process_war no_faults None ''0'' True (Some ended_snapshot)) = Some False \<and>
   map_option (map war_complete \<circ> war_details)
     (process_war no_faults None ''0'' True (Some ended_snapshot)) = Some [''No'', ''No'']"
  by (simp add: ended_snapshot_def scenario_defs process_war_eval get_existing_loot_hits_def)

text \<open>
  Claim C5, amended: the war-complete flag is true iff the state field equals
  \<^verbatim>\<open>"warEnded"\<close> (the API's name of the state), and the normalizer puts that same flag
  on every record it outputs for the war.
\<close>

theorem war_complete_flag:
  assumes "process_war env st now_ts keep (Some w) = Some wd"
  shows "is_ended wd = (w_state w = Some ''warEnded'') \<and>
         (\<forall>r\<in>set (war_details wd).
            (war_complete r = ''Yes'') = (w_state w = Some ''warEnded'') \<and>
            war_complete r = yes_no (is_ended wd))"
proof -
  note wd = process_war_Some [OF assms]
  have "war_complete r = yes_no (is_war_ended w)" if "r \<in> set (war_details wd)" for r
    using that member_rows_flags by (subst (asm) wd) auto
  moreover have "is_ended wd = is_war_ended w"
    by (subst wd) simp
  ultimately show ?thesis
    by (auto simp: is_war_ended_def yes_no_def)
qed

theorem war_complete_flag_witness:
  "map_option is_ended (process_war no_faults None ''0'' True (Some war_ended_snapshot)) = Some True \<and>
   map_option (map war_complete \<circ> war_details)
     (process_war no_faults None ''0'' True (Some war_ended_snapshot)) = Some [''Yes'', ''Yes'']"
  using war_complete_flag [of no_faults None "''0''" True war_ended_snapshot
     "the (process_war no_faults None ''0'' True (Some war_ended_snapshot))"]
  by (simp add: war_ended_snapshot_def scenario_defs process_war_eval get_existing_loot_hits_def)

theorem sentinel_is_never_loot_hit_witness:
  "get_existing_loot_hits no_faults marked_store ''20240101T000000-000Z'' ''#Q'' = Some [0] \<and>
   map_option (map (\<lambda>r. (player_tag r, attack_number r, is_loot_hit r)) \<circ> war_details)
     (process_war no_faults marked_store ''0'' True (Some in_war_snapshot))
     = Some [(''#P'', 1, CStr ''No''), (''#P'', 2, CStr ''Yes''), (''#Q'', 0, CStr ''No'')]"
  using sentinel_is_never_loot_hit [of no_faults marked_store "''0''" True in_war_snapshot
     "the (process_war no_faults marked_store ''0'' True (Some in_war_snapshot))"]
  by (simp add: in_war_snapshot_def marked_store_def scenario_defs process_war_eval read_eval)

theorem complete_war_is_not_saved_witness:
  "snd (war_already_saved no_faults complete_store (get_war_id ''0'' war_ended_snapshot)) \<and>
   store_after (main no_faults (\<lambda>s. NaT) (\<lambda>x. False) 0 ''0'' complete_store
                  (Some war_ended_snapshot)) = complete_store"
  using complete_war_is_not_saved [of no_faults complete_store "''0''" war_ended_snapshot
     "\<lambda>s. NaT" "\<lambda>x. False" 0]
  by (simp add: war_ended_snapshot_def complete_store_def scenario_defs get_war_id_def
      replace_char_def read_eval)

lemma war_already_saved_incomplete:
  assumes "map_of book (take EXCEL_SHEET_LIMIT wid) = Some sh" and "\<not> first_row_complete sh"
  shows "snd (war_already_saved env (Some book) wid) = False"
  using assms
  by (auto simp: war_already_saved_def read_excel_def Let_def first_row_complete_read
      split: sum.splits)

text \<open>
  Claim C2, as stated, for every re-fetch of a war that is not yet complete. It fails when
  the stored sheet cannot be read back: \<^verbatim>\<open>get_existing_loot_hits\<close> then returns the
  empty dictionary, the run saves all the same, and the mark stored for attack 2 of #P is
  saved as \<^verbatim>\<open>'No'\<close>. It fails as well for a tag that the reader takes for a missing
  value: the mark stored for attack 1 of the member tagged \<^verbatim>\<open>NA\<close> is lost although
  the sheet is read.
\<close>

theorem loot_hit_lost_counterexample:
  "war_already_saved no_faults marked_store ''20240101T000000-000Z'' = (True, False) \<and>
   stored_marks marked_store ''20240101T000000-000Z''
     = [(''#P'', 1, CStr ''No''), (''#P'', 2, CBool True), (''#Q'', 0, CStr ''Yes'')] \<and>
   stored_marks
     (store_after (main unreadable_sheet (\<lambda>s. NaT) (\<lambda>x. False) 0 ''0'' marked_store
                     (Some in_war_snapshot)))
     ''20240101T000000-000Z''
     = [(''#P'', 1, CStr ''No''), (''#P'', 2, CStr ''No''), (''#Q'', 0, CStr ''No'')] \<and>
   war_already_saved no_faults na_tag_store ''20240101T000000-000Z'' = (True, False) \<and>
   stored_marks na_tag_store ''20240101T000000-000Z'' = [(''NA'', 1, CStr ''Yes'')] \<and>
   stored_marks
     (store_after (main no_faults (\<lambda>s. NaT) (\<lambda>x. False) 0 ''0'' na_tag_store
                     (Some na_tag_snapshot)))
     ''20240101T000000-000Z''
     = [(''NA'', 1, CStr ''No'')]"
  by code_simp

text \<open>
  Claim C2, amended. On a re-fetch of a war whose stored sheet is not yet complete: if a
  stored row marks (player tag P, attack number N > 0) as a loot hit (any of the values the
  reader accepts), the fresh snapshot still has an attack number N of a member tagged P,
  the stored sheet can be read back and gives the tag P back as text, not as a missing
  value, then the sheet this run saves under the war's name (which is not the name of a
  derived view) holds a row for (P, N), and every row for (P, N) in it has
  \<^verbatim>\<open>Is Loot Hit = 'Yes'\<close>.
\<close>

theorem loot_hit_survives_refetch:
  assumes stored: "map_of book (take EXCEL_SHEET_LIMIT (get_war_id now_ts w)) = Some (WarSheet has_col rows)"
    and incomplete: "\<not> first_row_complete (WarSheet has_col rows)"
    and mark: "r \<in> set rows" "player_tag r = P" "attack_number r = N" "0 < N"
      "is_loot_mark (is_loot_hit r)"
    and fresh: "mem \<in> set (opt_default [] (w_members w))" "m_tag mem = Some P"
      "nat N \<le> length (opt_default [] (m_attacks mem))"
    and refetch: "opt_default ''notInWar'' (w_state w) \<noteq> ''notInWar''" "\<not> is_cwl_war w"
    and reads: "\<not> load_raises env" "take EXCEL_SHEET_LIMIT (get_war_id now_ts w) \<notin> read_raises env"
    and tag: "\<not> isna (read_text P)"
    and name: "\<not> is_derived_name (take EXCEL_SHEET_LIMIT (get_war_id now_ts w))"
  shows "\<exists>book' rows'.
           store_after (main env to_datetime tie_up now now_ts (Some book) (Some w)) = Some book' \<and>
           map_of book' (take EXCEL_SHEET_LIMIT (get_war_id now_ts w)) = Some (WarSheet True rows') \<and>
           (\<exists>r'\<in>set rows'. player_tag r' = P \<and> attack_number r' = N \<and> is_loot_hit r' = CStr ''Yes'') \<and>
           (\<forall>r'\<in>set rows'. player_tag r' = P \<and> attack_number r' = N \<longrightarrow> is_loot_hit r' = CStr ''Yes'')"
proof -
  let ?wid = "get_war_id now_ts w"
  let ?n = "take EXCEL_SHEET_LIMIT ?wid"
  define loot where "loot = get_existing_loot_hits env (Some book) ?wid"
  define details where
    "details = concat (map (member_rows ?wid w loot) (opt_default [] (w_members w)))"
  define wd where "wd = \<lparr> wd_war_id = ?wid, war_details = details, is_ended = is_war_ended w \<rparr>"
  have pw: "process_war env (Some book) now_ts True (Some w) = Some wd"
    by (simp add: process_war_def Let_def wd_def details_def loot_def)
  have inl: "in_loot loot P N"
    using existing_loot_marked [OF stored reads mark(1,5)] mark(2,3) tag by (simp add: loot_def)
  obtain r' where r': "r' \<in> set (member_rows ?wid w loot mem)"
    "player_tag r' = P" "attack_number r' = N" "is_loot_hit r' = CStr ''Yes''"
    using member_rows_loot [OF fresh(2) mark(4) fresh(3) inl] by blast
  have r'_in: "r' \<in> set details"
    using r'(1) fresh(1) by (auto simp: details_def)
  then have nonempty: "war_details wd \<noteq> []"
    by (auto simp: wd_def)
  have all: "is_loot_hit x = CStr ''Yes''"
    if "x \<in> set details" "player_tag x = P" "attack_number x = N" for x
  proof -
    have "\<exists>m. x \<in> set (member_rows ?wid w loot m)"
      using that(1) unfolding details_def by auto
    then obtain m where "x \<in> set (member_rows ?wid w loot m)" ..
    then show ?thesis
      using member_rows_loot_all [of x ?wid w loot m] that(2,3) inl mark(4) by simp
  qed
  have was: "snd (war_already_saved env (Some book) ?wid) = False"
    using war_already_saved_incomplete [OF stored incomplete] .
  obtain st' err where sr: "save_and_rebuild env (Some book) wd = (st', err)"
    by (cases "save_and_rebuild env (Some book) wd")
  have sw: "fst (store_war env now_ts (Some book) (Some w)) = st'"
    using refetch pw was sr by (auto simp: store_war_def wd_def split: prod.splits)
  obtain book' where b': "st' = Some book'"
    and m': "map_of book' ?n = Some (WarSheet True details)"
    using save_and_rebuild_sheets [OF sr name] nonempty reads(1) by (auto simp: wd_def)
  show ?thesis
    using sw b' m' r'_in r'(2,3,4) all by (auto simp: store_after_main)
qed

theorem loot_hit_survives_refetch_witness:
  "\<exists>book' rows'.
     store_after (main no_faults (\<lambda>s. NaT) (\<lambda>x. False) 0 ''0'' marked_store (Some in_war_snapshot))
       = Some book' \<and>
     map_of book' ''20240101T000000-000Z'' = Some (WarSheet True rows') \<and>
     (\<exists>r'\<in>set rows'. player_tag r' = ''#P'' \<and> attack_number r' = 2 \<and> is_loot_hit r' = CStr ''Yes'') \<and>
     (\<forall>r'\<in>set rows'. player_tag r' = ''#P'' \<and> attack_number r' = 2 \<longrightarrow> is_loot_hit r' = CStr ''Yes'')"
  using loot_hit_survives_refetch [where book = "the marked_store" and now_ts = "''0''"
      and w = in_war_snapshot and has_col = True
      and rows = "[row_of ''20240101T000000-000Z'' ''No'' ''pat'' ''#P'' 1 3 100 (CStr ''No''),
                   row_of ''20240101T000000-000Z'' ''No'' ''pat'' ''#P'' 2 2 80 (CBool True),
                   row_of ''20240101T000000-000Z'' ''No'' ''quinn'' ''#Q'' 0 0 0 (CStr ''Yes'')]"
      and r = "row_of ''20240101T000000-000Z'' ''No'' ''pat'' ''#P'' 2 2 80 (CBool True)"
      and P = "''#P''" and N = 2
      and mem = "member_of ''#P'' ''pat'' [attack_of 3 100, attack_of 2 80]"
      and env = no_faults and to_datetime = "\<lambda>s. NaT" and tie_up = "\<lambda>x. False" and now = 0]
  by (simp add: in_war_snapshot_def marked_store_def scenario_defs get_war_id_def
      replace_char_def EXCEL_SHEET_LIMIT_def opt_default_def is_cwl_war_def is_derived_name_def
      ROSTER_SHEET_NAME_def MISSED_HITS_SHEET_NAME_def yes_no_def read_text_def
      reads_as_nan_def NA_VALUES_def ERROR_CODES_def isna_def)

lemmas run_eval = main_def store_war_def save_and_rebuild_def save_war_to_excel_def
  update_roster_sheet_def roster_players_def roster_sheet_scan_def delete_sheet_def
  is_derived_name_def ROSTER_SHEET_NAME_def MISSED_HITS_SHEET_NAME_def is_cwl_war_def

text \<open>
  Claim C9. Whenever reading the stored sheet raises, \<^verbatim>\<open>war_already_saved\<close> returns
  (found = false, complete = false) and \<^verbatim>\<open>get_existing_loot_hits\<close> returns the empty
  mapping. Consequently a run can overwrite a complete war: with the sheet of the complete
  war unreadable, a run that fetches the same ended war replaces the stored rows, and the
  loot-hit mark that was stored for attack 1 of player #P is gone.
\<close>

theorem unreadable_war_is_absent:
  "(read_excel env book (take EXCEL_SHEET_LIMIT wid) = Inl e \<longrightarrow>
      war_already_saved env (Some book) wid = (False, False) \<and>
      get_existing_loot_hits env (Some book) wid = Map.empty) \<and>
   first_row_complete (the (map_of (the complete_store) ''20240101T000000-000Z'')) \<and>
   map (\<lambda>r. (player_tag r, attack_number r, is_loot_hit r))
     (case map_of (the complete_store) ''20240101T000000-000Z'' of Some (WarSheet h rows) \<Rightarrow> rows)
     = [(''#P'', 1, CStr ''Yes''), (''#Q'', 0, CStr ''No'')] \<and>
   map (\<lambda>r. (player_tag r, attack_number r, is_loot_hit r))
     (case map_of (the (store_after (main unreadable_sheet (\<lambda>s. NaT) (\<lambda>x. False) 0 ''0''
                                      complete_store (Some war_ended_snapshot))))
             ''20240101T000000-000Z'' of Some (WarSheet h rows) \<Rightarrow> rows)
     = [(''#P'', 1, CStr ''No''), (''#Q'', 0, CStr ''No'')]"
proof -
  have general: "war_already_saved env (Some book) wid = (False, False) \<and>
      get_existing_loot_hits env (Some book) wid = Map.empty"
    if r: "read_excel env book (take EXCEL_SHEET_LIMIT wid) = Inl e"
  proof -
    have "take EXCEL_SHEET_LIMIT wid \<notin> set (map fst book)"
      if "\<not> load_raises env" "take EXCEL_SHEET_LIMIT wid \<notin> read_raises env"
      using that r
      by (auto simp: read_excel_def map_of_eq_None_iff split: option.splits)
    then show ?thesis
      using r
      by (auto simp: war_already_saved_def get_existing_loot_hits_def Let_def read_excel_def
          split: option.splits)
  qed
  have before: "first_row_complete (the (map_of (the complete_store) ''20240101T000000-000Z''))"
    "map (\<lambda>r. (player_tag r, attack_number r, is_loot_hit r))
       (case map_of (the complete_store) ''20240101T000000-000Z'' of Some (WarSheet h rows) \<Rightarrow> rows)
       = [(''#P'', 1, CStr ''Yes''), (''#Q'', 0, CStr ''No'')]"
    by (simp_all add: complete_store_def row_of_def)
  have after: "map (\<lambda>r. (player_tag r, attack_number r, is_loot_hit r))
     (case map_of (the (store_after (main unreadable_sheet (\<lambda>s. NaT) (\<lambda>x. False) 0 ''0''
                                      complete_store (Some war_ended_snapshot))))
             ''20240101T000000-000Z'' of Some (WarSheet h rows) \<Rightarrow> rows)
     = [(''#P'', 1, CStr ''No''), (''#Q'', 0, CStr ''No'')]"
    by (simp add: run_eval process_war_eval read_eval unreadable_sheet_def complete_store_def
        war_ended_snapshot_def war_of_def member_of_def attack_of_def row_of_def)
  show ?thesis
    using general before after by blast
qed

theorem unreadable_war_is_absent_witness:
  "read_excel unreadable_sheet (the complete_store) ''20240101T000000-000Z'' = Inl IOError \<and>
   war_already_saved unreadable_sheet complete_store ''20240101T000000-000Z'' = (False, False) \<and>
   get_existing_loot_hits unreadable_sheet complete_store ''20240101T000000-000Z'' ''#P'' = None"
  using unreadable_war_is_absent [of unreadable_sheet "the complete_store"
      "''20240101T000000-000Z''" IOError]
  by (simp add: read_excel_def unreadable_sheet_def complete_store_def EXCEL_SHEET_LIMIT_def)

lemma truediv_nonzero: "b \<noteq> 0 \<Longrightarrow> truediv a b = Inr (of_int a / of_int b)"
  by (simp add: truediv_def)

lemma three_star_rate_Inr: "\<exists>s. three_star_rate tie_up three_stars total_attacks = Inr s"
  by (simp add: three_star_rate_def truediv_def)

lemma avg_stars_per_attack_not_Inl: "avg_stars_per_attack tie_up total_stars total_attacks \<noteq> Inl e"
  by (simp add: avg_stars_per_attack_def truediv_def)

lemma avg_stars_per_attack_Inr: "\<exists>q. avg_stars_per_attack tie_up total_stars total_attacks = Inr q"
  using avg_stars_per_attack_not_Inl [of tie_up total_stars total_attacks]
  by (cases "avg_stars_per_attack tie_up total_stars total_attacks") auto

lemma three_star_rate_zero: "three_star_rate tie_up three_stars 0 = Inr ''0.0%''"
  by (simp add: three_star_rate_def)

lemma avg_stars_per_attack_zero: "avg_stars_per_attack tie_up total_stars 0 = Inr 0"
  by (simp add: avg_stars_per_attack_def)

lemma stat_row_Inr:
  "\<exists>rate avg. stat_row tie_up astats mstats kw =
     Inr \<lparr> ps_player_name = fst (fst kw), ps_player_tag = snd (fst kw),
           ps_total_wars = snd kw, ps_total_stars = fst (merged_stats astats (fst kw)),
           ps_three_stars = fst (snd (merged_stats astats (fst kw))),
           ps_total_attacks = snd (snd (merged_stats astats (fst kw))),
           ps_rate = rate, ps_avg = avg,
           ps_missed_hits = (case map_of mstats (fst kw) of None \<Rightarrow> 0 | Some m \<Rightarrow> m) \<rparr> \<and>
     (snd (snd (merged_stats astats (fst kw))) = 0 \<longrightarrow> rate = ''0.0%'' \<and> avg = 0)"
proof -
  obtain ts th ta where m: "merged_stats astats (fst kw) = (ts, th, ta)"
    by (cases "merged_stats astats (fst kw)") auto
  obtain rate where r: "three_star_rate tie_up th ta = Inr rate"
    using three_star_rate_Inr by blast
  obtain avg where a: "avg_stars_per_attack tie_up ts ta = Inr avg"
    using avg_stars_per_attack_Inr by blast
  have "ta = 0 \<longrightarrow> rate = ''0.0%'' \<and> avg = 0"
    using r a three_star_rate_zero [of tie_up th] avg_stars_per_attack_zero [of tie_up ts]
    by auto
  then show ?thesis
    using m r a unfolding stat_row_def merged_stats_def by auto
qed

lemma collect_map_Inr:
  "(\<And>k. k \<in> set ks \<Longrightarrow> \<exists>v. f k = Inr v) \<Longrightarrow> collect (map f ks) = Inr (map (projr \<circ> f) ks)"
proof (induction ks)
  case Nil
  then show ?case by simp
next
  case (Cons k ks)
  obtain v where "f k = Inr v" using Cons.prems by auto
  moreover have "collect (map f ks) = Inr (map (projr \<circ> f) ks)"
    using Cons by simp
  ultimately show ?case by simp
qed

lemma player_stats_Inr:
  "player_stats tie_up mstats df =
     Inr (map (projr \<circ> stat_row tie_up (attack_stats (qualifying df)) mstats)
            (war_participation df))"
  unfolding player_stats_def
  by (rule collect_map_Inr) (use stat_row_Inr in blast)

text \<open>
  Claim C8. For a player with total-attacks = 0 the three-star rate is exactly the text
  \<^verbatim>\<open>"0.0%"\<close> and the average stars per attack is 0.0; no division by zero is ever
  evaluated: neither rate function returns an error, for any numbers, and
  \<^verbatim>\<open>player_stats\<close> is always computed, whatever frame and missed-hit counts it is
  built from.
\<close>

theorem zero_attacks_rate:
  "three_star_rate tie_up three_stars 0 = Inr ''0.0%'' \<and>
   avg_stars_per_attack tie_up total_stars 0 = Inr 0 \<and>
   three_star_rate tie_up three_stars total_attacks \<noteq> Inl e \<and>
   avg_stars_per_attack tie_up total_stars total_attacks \<noteq> Inl e \<and>
   (\<exists>ps. player_stats tie_up mstats df = Inr ps \<and>
      (\<forall>p\<in>set ps. ps_total_attacks p = 0 \<longrightarrow> ps_rate p = ''0.0%'' \<and> ps_avg p = 0))"
proof -
  have "ps_rate p = ''0.0%'' \<and> ps_avg p = 0"
    if "p \<in> set (map (projr \<circ> stat_row tie_up (attack_stats (qualifying df)) mstats)
                    (war_participation df))" "ps_total_attacks p = 0" for p
  proof -
    let ?f = "projr \<circ> stat_row tie_up (attack_stats (qualifying df)) mstats"
    from that(1) have "p \<in> ?f ` set (war_participation df)" by simp
    then obtain kw where "p = ?f kw" and "kw \<in> set (war_participation df)"
      by (rule imageE)
    then have p: "p = projr (stat_row tie_up (attack_stats (qualifying df)) mstats kw)"
      by simp
    show ?thesis
      using stat_row_Inr [of tie_up "attack_stats (qualifying df)" mstats kw] that(2)
      unfolding p by auto
  qed
  moreover have "three_star_rate tie_up three_stars total_attacks \<noteq> Inl e"
    using three_star_rate_Inr [of tie_up three_stars total_attacks] by auto
  moreover have "avg_stars_per_attack tie_up total_stars total_attacks \<noteq> Inl e"
    using avg_stars_per_attack_Inr [of tie_up total_stars total_attacks] by auto
  ultimately show ?thesis
    by (simp add: three_star_rate_zero avg_stars_per_attack_zero player_stats_Inr)
qed

theorem zero_attacks_rate_witness:
  "map (\<lambda>p. (ps_player_tag p, ps_total_attacks p, ps_rate p, ps_avg p))
     (projr (player_stats (\<lambda>x. False)
        (projr (missed_stats (concat (all_data no_faults (\<lambda>s. NaT) None (the two_wars_store)))))
        (concat (all_data no_faults (\<lambda>s. NaT) None (the two_wars_store)))))
     = [(''#P'', 2, ''50.0%'', 5 / 2), (''#Q'', 0, ''0.0%'', 0)]"
proof -
  have ev: "map (\<lambda>p. (ps_player_tag p, ps_total_attacks p, ps_rate p, ps_avg p))
     (projr (player_stats (\<lambda>x. False)
        (projr (missed_stats (concat (all_data no_faults (\<lambda>s. NaT) None (the two_wars_store)))))
        (concat (all_data no_faults (\<lambda>s. NaT) None (the two_wars_store)))))
     = [(''#P'', 2, ''50.0%'', 5 / 2), (''#Q'', 0, ''0.0%'', 0)]"
    by code_simp
  show ?thesis
    using zero_attacks_rate [where tie_up = "\<lambda>x. False" and three_stars = 0 and total_stars = 0
        and total_attacks = 0 and e = ZeroDivisionError
        and mstats = "projr (missed_stats
               (concat (all_data no_faults (\<lambda>s. NaT) None (the two_wars_store))))"
        and df = "concat (all_data no_faults (\<lambda>s. NaT) None (the two_wars_store))"] ev
    by simp
qed



lemma aggregate_Some:
  "aggregate tie_up frames = Inr (Some lb) \<Longrightarrow>
     frames \<noteq> [] \<and> qualifying (concat frames) \<noteq> [] \<and>
     (\<exists>mstats. missed_stats (concat frames) = Inr mstats \<and>
        lb = sort_key rank_key (map to_entry
               (map (projr \<circ> stat_row tie_up (attack_stats (qualifying (concat frames))) mstats)
                  (war_participation (concat frames)))))"
  by (auto simp: aggregate_def Let_def player_stats_Inr split: if_splits sum.splits)

lemma calculate_leaderboard_Some:
  "calculate_leaderboard env to_datetime tie_up now st days_filter = Inr (Some lb) \<Longrightarrow>
     \<exists>book. st = Some book \<and>
       aggregate tie_up (all_data env to_datetime (cutoff_date now days_filter) book) = Inr (Some lb)"
  by (auto simp: calculate_leaderboard_def split: option.splits if_splits)





lemma set_group_keys:
  "set (group_keys df) =
     player_key ` {r \<in> set df. \<not> isna (player_name r) \<and> \<not> isna (player_tag r)}"
  by (simp add: group_keys_def)

lemma total_attacks_merged:
  assumes "\<not> isna (fst k)" and "\<not> isna (snd k)"
  shows "snd (snd (merged_stats (attack_stats q) k)) = int (length (group_of q k))"
proof (cases "k \<in> set (group_keys q)")
  case True
  then have "map_of (attack_stats q) k =
      Some (sum_list (map stars (group_of q k)),
            int (length (filter (\<lambda>r. is_triple r = ''Yes'') (group_of q k))),
            int (length (group_of q k)))"
    unfolding attack_stats_def by (simp add: map_of_map_restrict Let_def)
  then show ?thesis
    by (simp add: merged_stats_def)
next
  case False
  then have "map_of (attack_stats q) k = None"
    unfolding attack_stats_def by (simp add: map_of_map_restrict Let_def)
  moreover have "group_of q k = []"
    using False assms
    by (auto simp: set_group_keys group_of_def filter_empty_conv player_key_def)
  ultimately show ?thesis
    by (simp add: merged_stats_def)
qed

lemma participant_has_stat:
  assumes "r \<in> set df" and "\<not> isna (player_name r)" and "\<not> isna (player_tag r)"
  shows "\<exists>p\<in>set (map (projr \<circ> stat_row tie_up (attack_stats (qualifying df)) mstats)
                     (war_participation df)).
           ps_player_name p = player_name r \<and> ps_player_tag p = player_tag r \<and>
           ps_total_attacks p = int (length (group_of (qualifying df) (player_key r))) \<and>
           (ps_total_attacks p = 0 \<longrightarrow> ps_rate p = ''0.0%'' \<and> ps_avg p = 0)"
proof -
  let ?kw = "(player_key r,
              length (remdups (filter (\<lambda>w. \<not> isna w) (map war_id (group_of df (player_key r))))))"
  let ?f = "projr \<circ> stat_row tie_up (attack_stats (qualifying df)) mstats"
  have "player_key r \<in> set (group_keys df)"
    using assms by (auto simp: set_group_keys)
  then have "?kw \<in> set (war_participation df)"
    by (auto simp: war_participation_def)
  then have in_set: "?f ?kw \<in> set (map ?f (war_participation df))"
    by simp
  have fields: "ps_player_name (?f ?kw) = player_name r \<and> ps_player_tag (?f ?kw) = player_tag r \<and>
      ps_total_attacks (?f ?kw) = int (length (group_of (qualifying df) (player_key r))) \<and>
      (ps_total_attacks (?f ?kw) = 0 \<longrightarrow> ps_rate (?f ?kw) = ''0.0%'' \<and> ps_avg (?f ?kw) = 0)"
    using stat_row_Inr [of tie_up "attack_stats (qualifying df)" mstats ?kw]
      total_attacks_merged [of "player_key r" "qualifying df"] assms(2,3)
    by (auto simp: player_key_def)
  show ?thesis
    using in_set fields by blast
qed

text \<open>
  Claim C7, as stated: every player of the filtered set of complete wars appears in the
  leaderboard. It fails in three ways. When the set has no qualifying attack, the
  aggregator returns no leaderboard (\<^verbatim>\<open>return None\<close>), here for a war whose only
  member did not attack. When no record of the set is a missed attack or a sentinel, the
  aggregator raises TypeError. And a player whose stored name the reader takes for a
  missing value, here \<^verbatim>\<open>NA\<close> with the tag #N, is left out of the leaderboard that is
  returned.
\<close>

theorem participants_listed_counterexample:
  "map player_tag (concat (all_data no_faults (\<lambda>s. NaT) None (the no_attack_store))) = [''#Q''] \<and>
   calculate_leaderboard no_faults (\<lambda>s. NaT) (\<lambda>x. False) 0 no_attack_store None = Inr None \<and>
   map player_tag (concat (all_data no_faults (\<lambda>s. NaT) None (the no_missed_store)))
     = [''#Z'', ''#A''] \<and>
   calculate_leaderboard no_faults (\<lambda>s. NaT) (\<lambda>x. False) 0 no_missed_store None = Inl TypeError \<and>
   map player_tag (concat (all_data no_faults (\<lambda>s. NaT) None (the na_name_store)))
     = [''#N'', ''#P'', ''#Q''] \<and>
   calculate_leaderboard no_faults (\<lambda>s. NaT) (\<lambda>x. False) 0 na_name_store None =
     Inr (Some
       [\<lparr>le_player_name = ''pat'', le_player_tag = ''#P'',
           le_three_star_rate = ''0.0%'', le_avg_stars_per_attack = 2,
           le_total_wars = 1, le_total_stars = 2, le_missed_hits = 0\<rparr>,
        \<lparr>le_player_name = ''quinn'', le_player_tag = ''#Q'',
           le_three_star_rate = ''0.0%'', le_avg_stars_per_attack = 0,
           le_total_wars = 1, le_total_stars = 0, le_missed_hits = 2\<rparr>])"
  by code_simp

text \<open>
  Claim C7, amended: whenever the aggregator returns a leaderboard, every player who
  appears in a record of the filtered set of complete wars, attack or sentinel, under a
  name and a tag that the reader does not take for missing values, has an entry in it; the
  entry's total-attacks is the number of the player's qualifying attacks, and a player with
  none appears with total-attacks = 0, rate \<^verbatim>\<open>"0.0%"\<close> and average 0.
\<close>

theorem participants_are_listed:
  assumes "calculate_leaderboard env to_datetime tie_up now (Some book) days_filter = Inr (Some lb)"
    and "r \<in> set (concat (all_data env to_datetime (cutoff_date now days_filter) book))"
    and "\<not> isna (player_name r)" and "\<not> isna (player_tag r)"
  shows "\<exists>mstats ps.
           missed_stats (concat (all_data env to_datetime (cutoff_date now days_filter) book))
             = Inr mstats \<and>
           player_stats tie_up mstats
               (concat (all_data env to_datetime (cutoff_date now days_filter) book))
             = Inr ps \<and>
           lb = sort_key rank_key (map to_entry ps) \<and>
           (\<exists>p\<in>set ps.
              to_entry p \<in> set lb \<and>
              ps_player_name p = player_name r \<and> ps_player_tag p = player_tag r \<and>
              ps_total_attacks p =
                int (length (group_of
                  (qualifying (concat (all_data env to_datetime (cutoff_date now days_filter) book)))
                  (player_key r))) \<and>
              (ps_total_attacks p = 0 \<longrightarrow> ps_rate p = ''0.0%'' \<and> ps_avg p = 0))"
proof -
  let ?df = "concat (all_data env to_datetime (cutoff_date now days_filter) book)"
  have "aggregate tie_up (all_data env to_datetime (cutoff_date now days_filter) book) = Inr (Some lb)"
    using calculate_leaderboard_Some [OF assms(1)] by simp
  then obtain mstats where ms: "missed_stats ?df = Inr mstats"
    and lb: "lb = sort_key rank_key (map to_entry
               (map (projr \<circ> stat_row tie_up (attack_stats (qualifying ?df)) mstats)
                  (war_participation ?df)))"
    using aggregate_Some by blast
  let ?ps = "map (projr \<circ> stat_row tie_up (attack_stats (qualifying ?df)) mstats)
               (war_participation ?df)"
  have ps: "player_stats tie_up mstats ?df = Inr ?ps"
    by (rule player_stats_Inr)
  obtain p where p: "p \<in> set ?ps" "ps_player_name p = player_name r"
    "ps_player_tag p = player_tag r"
    "ps_total_attacks p = int (length (group_of (qualifying ?df) (player_key r)))"
    "ps_total_attacks p = 0 \<longrightarrow> ps_rate p = ''0.0%'' \<and> ps_avg p = 0"
    using participant_has_stat [OF assms(2,3,4), of tie_up mstats] by blast
  have "to_entry p \<in> to_entry ` set ?ps"
    using p(1) by (rule imageI)
  then have "to_entry p \<in> set lb"
    unfolding lb by (simp only: set_sort set_map)
  then show ?thesis
    using ms ps lb p by blast
qed

theorem participants_are_listed_witness:
  "calculate_leaderboard no_faults (\<lambda>s. NaT) (\<lambda>x. False) 0 (Some (the two_wars_store)) None =
     Inr (Some
       [\<lparr>le_player_name = ''pat'', le_player_tag = ''#P'',
           le_three_star_rate = ''50.0%'', le_avg_stars_per_attack = 5 / 2,
           le_total_wars = 2, le_total_stars = 5, le_missed_hits = 0\<rparr>,
        \<lparr>le_player_name = ''quinn'', le_player_tag = ''#Q'',
           le_three_star_rate = ''0.0%'', le_avg_stars_per_attack = 0,
           le_total_wars = 2, le_total_stars = 0, le_missed_hits = 2\<rparr>]) \<and>
   (\<exists>p. ps_player_name p = ''quinn'' \<and> ps_player_tag p = ''#Q'' \<and> ps_total_attacks p = 0 \<and>
        ps_rate p = ''0.0%'' \<and> ps_avg p = 0 \<and>
        to_entry p \<in> set
          [\<lparr>le_player_name = ''pat'', le_player_tag = ''#P'',
             le_three_star_rate = ''50.0%'', le_avg_stars_per_attack = 5 / 2,
             le_total_wars = 2, le_total_stars = 5, le_missed_hits = 0\<rparr>,
           \<lparr>le_player_name = ''quinn'', le_player_tag = ''#Q'',
             le_three_star_rate = ''0.0%'', le_avg_stars_per_attack = 0,
             le_total_wars = 2, le_total_stars = 0, le_missed_hits = 2\<rparr>])"
proof -
  let ?r = "row_of ''20240101T000000-000Z'' ''Yes'' ''quinn'' ''#Q'' 0 0 0 (CStr ''No'')"
  let ?df = "concat (all_data no_faults (\<lambda>s. NaT) (cutoff_date 0 None) (the two_wars_store))"
  have h1: "calculate_leaderboard no_faults (\<lambda>s. NaT) (\<lambda>x. False) 0 (Some (the two_wars_store)) None =
     Inr (Some
       [\<lparr>le_player_name = ''pat'', le_player_tag = ''#P'',
           le_three_star_rate = ''50.0%'', le_avg_stars_per_attack = 5 / 2,
           le_total_wars = 2, le_total_stars = 5, le_missed_hits = 0\<rparr>,
        \<lparr>le_player_name = ''quinn'', le_player_tag = ''#Q'',
           le_three_star_rate = ''0.0%'', le_avg_stars_per_attack = 0,
           le_total_wars = 2, le_total_stars = 0, le_missed_hits = 2\<rparr>])"
    by code_simp
  have h2: "?r \<in> set ?df"
    by code_simp
  have h3: "length (group_of (qualifying ?df) (player_key ?r)) = 0"
    by code_simp
  have h4: "player_name ?r = ''quinn''" "player_tag ?r = ''#Q''"
    by (simp_all add: row_of_def)
  obtain p where "to_entry p \<in> set
          [\<lparr>le_player_name = ''pat'', le_player_tag = ''#P'',
             le_three_star_rate = ''50.0%'', le_avg_stars_per_attack = 5 / 2,
             le_total_wars = 2, le_total_stars = 5, le_missed_hits = 0\<rparr>,
           \<lparr>le_player_name = ''quinn'', le_player_tag = ''#Q'',
             le_three_star_rate = ''0.0%'', le_avg_stars_per_attack = 0,
             le_total_wars = 2, le_total_stars = 0, le_missed_hits = 2\<rparr>]"
    "ps_player_name p = ''quinn''" "ps_player_tag p = ''#Q''" "ps_total_attacks p = 0"
    "ps_rate p = ''0.0%'' \<and> ps_avg p = 0"
    using participants_are_listed [OF h1 h2] unfolding h3 h4 by (auto simp: isna_def)
  then show ?thesis
    using h1 by blast
qed

text \<open>
  Claim C1 says that the leaderboard's missed-hit count is the per-war sum
  \<open>missed_hits_per_war\<close>. The code groups the rows by player over all wars at once and
  returns 2 as soon as any row of the group is a sentinel. With two complete wars in both
  of which quinn made no attack, the leaderboard gives quinn 2 missed hits where the
  per-war sum is 4.
\<close>

theorem missed_hits_not_per_war:
  "calculate_leaderboard no_faults (\<lambda>s. NaT) (\<lambda>x. False) 0 two_wars_store None =
     Inr (Some
       [\<lparr>le_player_name = ''pat'', le_player_tag = ''#P'',
           le_three_star_rate = ''50.0%'', le_avg_stars_per_attack = 5 / 2,
           le_total_wars = 2, le_total_stars = 5, le_missed_hits = 0\<rparr>,
        \<lparr>le_player_name = ''quinn'', le_player_tag = ''#Q'',
           le_three_star_rate = ''0.0%'', le_avg_stars_per_attack = 0,
           le_total_wars = 2, le_total_stars = 0, le_missed_hits = 2\<rparr>]) \<and>
   missed_hits_per_war (concat (all_data no_faults (\<lambda>s. NaT) None (the two_wars_store)))
     (''quinn'', ''#Q'') = 4"
  by code_simp

text \<open>
  Claim C4 says that the roster's wars-participated counter grows by at most one per war.
  The code increments it once per row with attack number > 0: with a single stored war in
  which pat made two attacks, the rebuilt roster shows pat with total wars 1 and wars
  participated 2.
\<close>

theorem roster_counts_attack_rows:
  "map_option
     (\<lambda>sh. case sh of
              RosterSheet es \<Rightarrow> map (\<lambda>e. (r_player_tag e, r_total_wars e, wars_participated e)) es
            | _ \<Rightarrow> [])
     (map_of (the (projr (update_roster_sheet no_faults one_war_store))) ROSTER_SHEET_NAME)
     = Some [(''#P'', 1, 2)]"
  by code_simp

end
